theory Spec2Isabelle
  imports Main "HOL-Library.Multiset" "HOL-Library.Sublist"
begin

section \<open>The churn notebook: data model\<close>

text \<open>
  The repository is one Jupyter notebook, \<^verbatim>\<open>customer_churn.ipynb\<close>. Its code cells are
  embedded here in source order. What the cells call in pandas, numpy, boto3 and the
  SageMaker SDK is not part of the repository; the deterministic library operations
  (slicing, dropping a column, writing rows) are written out, and everything the
  libraries or the hosted platform decide on their own (the random draw, job names,
  job outcomes, image and artifact locations, the clock) is a field of the record
  \<open>platform\<close> below, over which every theorem quantifies.
\<close>

subsection \<open>Python floats in \<^verbatim>\<open>int(0.7 * len(churn))\<close>\<close>

text \<open>
  A non-negative double is \<open>mant / 2 ^ expo\<close>. The product of a double with an integer
  is the exact product rounded to 53 significant bits, ties to even; \<^verbatim>\<open>int\<close> truncates.
  \<open>bit_length\<close> is Python's \<^verbatim>\<open>int.bit_length\<close>.
\<close>

fun bit_length :: "nat \<Rightarrow> nat" where
  "bit_length n = (if n = 0 then 0 else Suc (bit_length (n div 2)))"

declare bit_length.simps [simp del]

definition round_to :: "nat \<Rightarrow> nat \<Rightarrow> nat" where
  "round_to s p =
     (let q = p div 2 ^ s; r = p mod 2 ^ s
      in if 2 ^ s < 2 * r \<or> (2 * r = 2 ^ s \<and> odd q) then (q + 1) * 2 ^ s else q * 2 ^ s)"

definition round53 :: "nat \<Rightarrow> nat" where
  "round53 p = round_to (bit_length p - 53) p"

record pyfloat =
  mant :: nat
  expo :: nat

text \<open>The literals \<^verbatim>\<open>0.7\<close> (0x3FE6666666666666) and \<^verbatim>\<open>0.9\<close> (0x3FECCCCCCCCCCCCD).\<close>

definition float_0_7 :: pyfloat where
  "float_0_7 = \<lparr>mant = 6305039478318694, expo = 53\<rparr>"

definition float_0_9 :: pyfloat where
  "float_0_9 = \<lparr>mant = 8106479329266893, expo = 53\<rparr>"

definition float_le :: "pyfloat \<Rightarrow> pyfloat \<Rightarrow> bool" where
  "float_le f g = (mant f * 2 ^ expo g \<le> mant g * 2 ^ expo f)"

text \<open>\<^verbatim>\<open>int(f * n)\<close>: \<open>n\<close> is converted to a double first, then multiplied, then truncated.\<close>

definition int_float_mul :: "pyfloat \<Rightarrow> nat \<Rightarrow> nat" where
  "int_float_mul f n = round53 (mant f * round53 n) div 2 ^ expo f"

subsection \<open>Data frames\<close>

datatype job = PreprocessFit | TransformTrain | TransformValidation | XGBoostFit

datatype error =
    IndexError
  | KeyError string
  | ValueError
  | FileNotFoundError string
  | NoJob job
  | JobFailed job
  | ModelAlreadyExists string

type_synonym csv = "string list list"

text \<open>A frame: the column labels, and the rows as (index label, cells).\<close>

record dataframe =
  columns :: "string list"
  rows :: "(nat \<times> string list) list"

definition len :: "dataframe \<Rightarrow> nat" where
  "len df = length (rows df)"

text \<open>
  \<^verbatim>\<open>df.sample(frac=1, random_state=rs)\<close> draws \<open>len df\<close> positions without replacement
  from the generator and takes the rows at these positions. The generator is a
  parameter: \<open>g (Some seed) n\<close> is the draw of a fresh generator seeded with \<open>seed\<close>,
  \<open>g None n\<close> the draw from the ambient global generator.
\<close>

definition take_rows :: "nat list \<Rightarrow> dataframe \<Rightarrow> error + dataframe" where
  "take_rows locs df =
     (if list_all (\<lambda>i. i < len df) locs
      then Inr (df\<lparr>rows := map (\<lambda>i. rows df ! i) locs\<rparr>)
      else Inl IndexError)"

definition sample :: "(nat option \<Rightarrow> nat \<Rightarrow> nat list) \<Rightarrow> nat option \<Rightarrow> dataframe \<Rightarrow> error + dataframe" where
  "sample g random_state df = take_rows (g random_state (len df)) df"

text \<open>
  \<^verbatim>\<open>np.split(ary, indices)\<close>: the division points are \<^verbatim>\<open>[0] + indices + [len(ary)]\<close> and
  section \<open>i\<close> is the slice between points \<open>i\<close> and \<open>i + 1\<close>.
\<close>

definition slice :: "nat \<Rightarrow> nat \<Rightarrow> dataframe \<Rightarrow> dataframe" where
  "slice st en df = df\<lparr>rows := drop st (take en (rows df))\<rparr>"

definition np_split :: "dataframe \<Rightarrow> nat list \<Rightarrow> dataframe list" where
  "np_split df indices =
     map (\<lambda>(st, en). slice st en df) (zip (0 # indices) (indices @ [len df]))"

text \<open>
  Line 175, with its literals as parameters:
  \<^verbatim>\<open>np.split(churn.sample(frac=1, random_state=seed), [int(f1 * len(churn)), int(f2 * len(churn))])\<close>
  unpacked into three names.
\<close>

definition splitter ::
  "(nat option \<Rightarrow> nat \<Rightarrow> nat list) \<Rightarrow> nat \<Rightarrow> pyfloat \<Rightarrow> pyfloat \<Rightarrow> dataframe
     \<Rightarrow> error + dataframe \<times> dataframe \<times> dataframe" where
  "splitter g seed f1 f2 churn =
     (case sample g (Some seed) churn of
        Inl e \<Rightarrow> Inl e
      | Inr shuffled \<Rightarrow>
          (case np_split shuffled [int_float_mul f1 (len churn), int_float_mul f2 (len churn)] of
             [train_data, validation_data, test_data] \<Rightarrow> Inr (train_data, validation_data, test_data)
           | _ \<Rightarrow> Inl ValueError))"

definition train_validation_test ::
  "(nat option \<Rightarrow> nat \<Rightarrow> nat list) \<Rightarrow> dataframe \<Rightarrow> error + dataframe \<times> dataframe \<times> dataframe" where
  "train_validation_test g churn = splitter g 1729 float_0_7 float_0_9 churn"

text \<open>\<^verbatim>\<open>df.drop(name, axis=1)\<close> and \<^verbatim>\<open>df.to_csv(path, header=h, index=False)\<close>.\<close>

definition drop_column :: "string \<Rightarrow> dataframe \<Rightarrow> error + dataframe" where
  "drop_column name df =
     (if name \<in> set (columns df)
      then Inr \<lparr>columns = filter (\<lambda>c. c \<noteq> name) (columns df),
                rows = map (\<lambda>(i, cells). (i, map snd (filter (\<lambda>(c, v). c \<noteq> name) (zip (columns df) cells))))
                         (rows df)\<rparr>
      else Inl (KeyError name))"

definition to_csv :: "bool \<Rightarrow> dataframe \<Rightarrow> csv" where
  "to_csv header df = (if header then [columns df] else []) @ map snd (rows df)"

subsection \<open>Time stamps and names\<close>

text \<open>
  \<^verbatim>\<open>str\<close> of a non-negative integer, and the fields of \<^verbatim>\<open>time.struct_time\<close> that the
  format \<^verbatim>\<open>"%Y-%m-%d-%H-%M-%S"\<close> prints: the year in decimal, the others zero-padded
  to two digits.
\<close>

definition digit_char :: "nat \<Rightarrow> char" where
  "digit_char d = ''0123456789'' ! d"


fun str_nat :: "nat \<Rightarrow> string" where
  "str_nat n = (if n < 10 then [digit_char n] else str_nat (n div 10) @ [digit_char (n mod 10)])"

declare str_nat.simps [simp del]

definition pad2 :: "nat \<Rightarrow> string" where
  "pad2 n = (if n < 10 then CHR ''0'' # str_nat n else str_nat n)"

record struct_time =
  tm_year :: nat
  tm_mon :: nat
  tm_mday :: nat
  tm_hour :: nat
  tm_min :: nat
  tm_sec :: nat

definition strftime :: "struct_time \<Rightarrow> string" where
  "strftime t =
     str_nat (tm_year t) @ ''-'' @ pad2 (tm_mon t) @ ''-'' @ pad2 (tm_mday t) @ ''-''
       @ pad2 (tm_hour t) @ ''-'' @ pad2 (tm_min t) @ ''-'' @ pad2 (tm_sec t)"


text \<open>Lines 56-57, and \<^verbatim>\<open>os.path.join\<close> on two components.\<close>

definition bucket :: string where
  "bucket = ''mlx-sagemaker-quicksight-customer-churn''"

definition prefix_str :: string where
  "prefix_str = ''sagemaker/QS-xgboost-churn''"

definition path_join :: "string \<Rightarrow> string \<Rightarrow> string" where
  "path_join a b =
     (if b \<noteq> [] \<and> hd b = CHR ''/'' then b
      else if a = [] \<or> last a = CHR ''/'' then a @ b
      else a @ ''/'' @ b)"

text \<open>An object of bucket \<open>b\<close> under key \<open>k\<close> is stored under its URI.\<close>

definition s3_uri :: "string \<Rightarrow> string \<Rightarrow> string" where
  "s3_uri b k = ''s3://'' @ b @ ''/'' @ k"

subsection \<open>SDK objects\<close>

record training_input =
  S3Uri :: string
  ContentType :: "string option"
  S3DataDistributionType :: "string option"
  S3DataType :: string

record estimator =
  est_image_uri :: string
  est_entry_point :: "string option"
  est_role :: string
  est_instance_count :: nat
  est_instance_type :: string
  est_output_path :: "string option"
  est_hyperparameters :: "(string \<times> string) list"

record sk_model =
  image_uri :: string
  model_data :: string
  env :: "(string \<times> string) list"

record transformer =
  tf_model :: sk_model
  tf_instance_count :: nat
  tf_instance_type :: string
  tf_assemble_with :: string
  tf_output_path :: string
  tf_accept :: string

record container =
  Image :: string
  ModelDataUrl :: string
  Environment :: "(string \<times> string) list"

datatype request =
    TrainingRequest estimator "(string \<times> training_input) list"
  | TransformRequest transformer string string

text \<open>
  The storage locations a job reads: the channels of a training job; the data location
  and the model artifact of a transform job. With \<^verbatim>\<open>S3Prefix\<close> inputs, a location
  stands for every object whose URI it is a prefix of.
\<close>

fun reads :: "request \<Rightarrow> string list" where
  "reads (TrainingRequest e channels) = map (\<lambda>(name, inp). S3Uri inp) channels"
| "reads (TransformRequest t data content_type) = [data, model_data (tf_model t)]"

definition visible :: "string list \<Rightarrow> (string \<rightharpoonup> csv) \<Rightarrow> (string \<rightharpoonup> csv)" where
  "visible locations store = (\<lambda>k. if list_ex (\<lambda>p. prefix p k) locations then store k else None)"

subsection \<open>The platform and the world\<close>

text \<open>
  Everything outside the notebook. \<open>job_result\<close> is the outcome of a job as a function
  of its request and of the stored objects its request names: \<open>None\<close> when the job
  fails, the objects it writes when it completes. \<open>transform_blocks\<close> tells whether
  \<^verbatim>\<open>Transformer.transform\<close> itself blocks until the job ends (SDK version 2, and local
  mode) or returns at once.
\<close>

record platform =
  rng :: "nat option \<Rightarrow> nat \<Rightarrow> nat list"
  role :: string
  boto_region_name :: string
  sklearn_image_uri :: string
  xgboost_image_uri :: string
  job_name :: "job \<Rightarrow> string"
  artifact :: "job \<Rightarrow> string"
  job_result :: "job \<Rightarrow> request \<Rightarrow> (string \<rightharpoonup> csv) \<Rightarrow> (string \<rightharpoonup> csv) option"
  transform_blocks :: bool
  uploaded_code_s3_prefix :: string
  uploaded_code_script_name :: string
  container_log_level :: nat
  gmtime :: struct_time

datatype job_state = Running request "string \<rightharpoonup> csv" | Completed | Failed

datatype event =
    Upload string
  | Submit job request "string \<rightharpoonup> csv"
  | Wait job
  | Returned job
  | Raised job
  | ReadOutput job
  | Print string
  | PrintConfig training_input
  | CreateModel string "container list" string

record world =
  files :: "string \<rightharpoonup> csv"
  s3 :: "string \<rightharpoonup> csv"
  jobs :: "job \<rightharpoonup> job_state"
  models :: "string \<rightharpoonup> container list \<times> string"
  trace :: "event list"

definition fresh :: "(string \<rightharpoonup> csv) \<Rightarrow> (string \<rightharpoonup> csv) \<Rightarrow> (string \<rightharpoonup> container list \<times> string) \<Rightarrow> world" where
  "fresh local_files store registry =
     \<lparr>files = local_files, s3 = store, jobs = Map.empty, models = registry, trace = []\<rparr>"

text \<open>
  A step of the notebook takes the world and returns a value or the exception raised,
  and the world it leaves. An exception ends the run: \<open>andthen\<close> runs no later step.
\<close>

type_synonym 'a action = "world \<Rightarrow> (error + 'a) \<times> world"

definition return :: "'a \<Rightarrow> 'a action" where
  "return x w = (Inr x, w)"

definition andthen :: "'a action \<Rightarrow> ('a \<Rightarrow> 'b action) \<Rightarrow> 'b action" where
  "andthen m f w = (case m w of (Inl e, w') \<Rightarrow> (Inl e, w') | (Inr x, w') \<Rightarrow> f x w')"

definition lift :: "error + 'a \<Rightarrow> 'a action" where
  "lift r w = (r, w)"

definition log :: "event \<Rightarrow> unit action" where
  "log ev w = (Inr (), w\<lparr>trace := trace w @ [ev]\<rparr>)"

subsection \<open>Library calls that touch the world\<close>

definition to_csv_file :: "string \<Rightarrow> bool \<Rightarrow> dataframe \<Rightarrow> unit action" where
  "to_csv_file path header df w = (Inr (), w\<lparr>files := (files w)(path \<mapsto> to_csv header df)\<rparr>)"

definition upload_file :: "string \<Rightarrow> string \<Rightarrow> string \<Rightarrow> unit action" where
  "upload_file b key path w =
     (case files w path of
        None \<Rightarrow> (Inl (FileNotFoundError path), w)
      | Some body \<Rightarrow>
          (Inr (), w\<lparr>s3 := (s3 w)(s3_uri b key \<mapsto> body), trace := trace w @ [Upload (s3_uri b key)]\<rparr>))"

text \<open>
  Submitting a job records it as running on what its request names in the store.
  A blocking wait brings a running job to its terminal state (its outputs are stored
  when it completes) and raises when the job has failed.
\<close>

definition submit :: "platform \<Rightarrow> job \<Rightarrow> request \<Rightarrow> unit action" where
  "submit E j req w =
     (Inr (), w\<lparr>jobs := (jobs w)(j \<mapsto> Running req (visible (reads req) (s3 w))),
                 trace := trace w @ [Submit j req (visible (reads req) (s3 w))]\<rparr>)"

definition wait_job :: "platform \<Rightarrow> job \<Rightarrow> unit action" where
  "wait_job E j w =
     (case jobs w j of
        None \<Rightarrow> (Inl (NoJob j), w)
      | Some (Running req inputs) \<Rightarrow>
          (case job_result E j req inputs of
             None \<Rightarrow> (Inl (JobFailed j),
                       w\<lparr>jobs := (jobs w)(j \<mapsto> Failed), trace := trace w @ [Wait j, Raised j]\<rparr>)
           | Some outputs \<Rightarrow> (Inr (),
                       w\<lparr>s3 := s3 w ++ outputs, jobs := (jobs w)(j \<mapsto> Completed),
                          trace := trace w @ [Wait j, Returned j]\<rparr>))
      | Some Completed \<Rightarrow> (Inr (), w\<lparr>trace := trace w @ [Wait j, Returned j]\<rparr>)
      | Some Failed \<Rightarrow> (Inl (JobFailed j), w\<lparr>trace := trace w @ [Wait j, Raised j]\<rparr>))"

text \<open>\<^verbatim>\<open>Estimator.fit(inputs)\<close> waits by default; \<^verbatim>\<open>Transformer.transform(data, content_type)\<close>.\<close>

definition fit :: "platform \<Rightarrow> job \<Rightarrow> estimator \<Rightarrow> (string \<times> training_input) list \<Rightarrow> unit action" where
  "fit E j e inputs = andthen (submit E j (TrainingRequest e inputs)) (\<lambda>_. wait_job E j)"

definition transform :: "platform \<Rightarrow> job \<Rightarrow> transformer \<Rightarrow> string \<Rightarrow> string \<Rightarrow> unit action" where
  "transform E j t data content_type =
     andthen (submit E j (TransformRequest t data content_type))
       (\<lambda>_. if transform_blocks E then wait_job E j else return ())"

text \<open>
  \<^verbatim>\<open>estimator.model_data\<close> reads the artifact location of the estimator's training job;
  \<^verbatim>\<open>estimator.create_model(env=...)\<close> builds a model on the estimator's image and on
  that artifact.
\<close>

definition estimator_model_data :: "platform \<Rightarrow> job \<Rightarrow> string action" where
  "estimator_model_data E j = andthen (log (ReadOutput j)) (\<lambda>_. return (artifact E j))"

definition create_model :: "platform \<Rightarrow> job \<Rightarrow> estimator \<Rightarrow> (string \<times> string) list \<Rightarrow> sk_model action" where
  "create_model E j e environment =
     andthen (estimator_model_data E j)
       (\<lambda>data. return \<lparr>image_uri = est_image_uri e, model_data = data, env = environment\<rparr>)"

definition print :: "string \<Rightarrow> unit action" where
  "print s = log (Print s)"

text \<open>
  \<^verbatim>\<open>client.create_model\<close>: the platform registers a model under a name that is free and
  refuses a name that is taken.
\<close>

definition client_create_model :: "string \<Rightarrow> container list \<Rightarrow> string \<Rightarrow> unit action" where
  "client_create_model name cs execution_role w =
     (if name \<in> dom (models w)
      then (Inl (ModelAlreadyExists name), w\<lparr>trace := trace w @ [CreateModel name cs execution_role]\<rparr>)
      else (Inr (), w\<lparr>models := (models w)(name \<mapsto> (cs, execution_role)),
                       trace := trace w @ [CreateModel name cs execution_role]\<rparr>))"

subsection \<open>The cells\<close>

text \<open>Lines 175-178.\<close>

definition split_cell :: "platform \<Rightarrow> dataframe \<Rightarrow> unit action" where
  "split_cell E churn =
     andthen (lift (train_validation_test (rng E) churn)) (\<lambda>(train_data, validation_data, test_data).
     andthen (to_csv_file ''train.csv'' False train_data) (\<lambda>_.
     andthen (to_csv_file ''validation.csv'' False validation_data) (\<lambda>_.
     andthen (lift (drop_column ''Churn?'' test_data)) (\<lambda>dropped.
     to_csv_file ''test.csv'' True dropped))))"

text \<open>Lines 194-196.\<close>

definition upload_cell :: "unit action" where
  "upload_cell =
     andthen (upload_file bucket (path_join prefix_str ''rawtrain/train.csv'') ''train.csv'') (\<lambda>_.
     andthen (upload_file bucket (path_join prefix_str ''rawvalidation/validation.csv'') ''validation.csv'') (\<lambda>_.
     upload_file bucket (path_join prefix_str ''rawtest/test.csv'') ''test.csv''))"

text \<open>
  Lines 212-214: \<^verbatim>\<open>sagemaker.TrainingInput(s3_data=..., content_type='csv')\<close>. The
  constructor fills in the distribution \<^verbatim>\<open>FullyReplicated\<close> when none is passed.
\<close>

definition TrainingInput :: "string \<Rightarrow> string option \<Rightarrow> string option \<Rightarrow> training_input" where
  "TrainingInput s3_data distribution content_type =
     \<lparr>S3Uri = s3_data, ContentType = content_type,
      S3DataDistributionType =
        (case distribution of None \<Rightarrow> Some ''FullyReplicated''
         | Some d \<Rightarrow> Some (if d = [] then ''FullyReplicated'' else d)),
      S3DataType = ''S3Prefix''\<rparr>"

definition s3_input_train :: training_input where
  "s3_input_train = TrainingInput (''s3://'' @ bucket @ ''/'' @ prefix_str @ ''/rawtrain/'') None (Some ''csv'')"

definition s3_input_validation :: training_input where
  "s3_input_validation = TrainingInput (''s3://'' @ bucket @ ''/'' @ prefix_str @ ''/rawvalidation/'') None (Some ''csv'')"

definition s3_input_test :: training_input where
  "s3_input_test = TrainingInput (''s3://'' @ bucket @ ''/'' @ prefix_str @ ''/rawtest/'') None (Some ''csv'')"

text \<open>Lines 244-256.\<close>

definition script_path :: string where
  "script_path = ''quicksight-sagemaker-integration/preprocessing.py''"

definition sklearn_preprocessor :: "platform \<Rightarrow> estimator" where
  "sklearn_preprocessor E =
     \<lparr>est_image_uri = sklearn_image_uri E, est_entry_point = Some script_path, est_role = role E,
      est_instance_count = 1, est_instance_type = ''local'', est_output_path = None,
      est_hyperparameters = []\<rparr>"

definition preprocess_cell :: "platform \<Rightarrow> unit action" where
  "preprocess_cell E = fit E PreprocessFit (sklearn_preprocessor E) [(''train'', s3_input_train)]"

text \<open>Lines 273-290.\<close>

definition transform_train_output_path :: string where
  "transform_train_output_path =
     ''s3://'' @ bucket @ ''/'' @ prefix_str @ ''/'' @ ''transformtrain-train-output'' @ ''/''"

definition transform_train_cell :: "platform \<Rightarrow> (sk_model \<times> string) action" where
  "transform_train_cell E =
     andthen (create_model E PreprocessFit (sklearn_preprocessor E) [(''TRANSFORM_MODE'', ''feature-transform'')])
       (\<lambda>scikit_learn_inferencee_model.
     let transformer_train =
           \<lparr>tf_model = scikit_learn_inferencee_model, tf_instance_count = 1, tf_instance_type = ''local'',
            tf_assemble_with = ''Line'', tf_output_path = transform_train_output_path,
            tf_accept = ''text/csv''\<rparr>
     in
     andthen (transform E TransformTrain transformer_train (S3Uri s3_input_train) ''text/csv'') (\<lambda>_.
     andthen (print (''Waiting for transform job: '' @ job_name E TransformTrain)) (\<lambda>_.
     andthen (wait_job E TransformTrain) (\<lambda>_.
     andthen (log (ReadOutput TransformTrain)) (\<lambda>_.
     let preprocessed_train_path = tf_output_path transformer_train @ job_name E TransformTrain in
     andthen (print preprocessed_train_path) (\<lambda>_.
     return (scikit_learn_inferencee_model, preprocessed_train_path)))))))"

text \<open>Lines 299-312.\<close>

definition transform_validation_output_path :: string where
  "transform_validation_output_path =
     ''s3://'' @ bucket @ ''/'' @ prefix_str @ ''/'' @ ''transformtrain-validation-output'' @ ''/''"

definition transform_validation_cell :: "platform \<Rightarrow> sk_model \<Rightarrow> string action" where
  "transform_validation_cell E scikit_learn_inferencee_model =
     (let transformer_validation =
           \<lparr>tf_model = scikit_learn_inferencee_model, tf_instance_count = 1, tf_instance_type = ''local'',
            tf_assemble_with = ''Line'', tf_output_path = transform_validation_output_path,
            tf_accept = ''text/csv''\<rparr>
      in
      andthen (transform E TransformValidation transformer_validation (S3Uri s3_input_validation) ''text/csv'') (\<lambda>_.
      andthen (print (''Waiting for transform job: '' @ job_name E TransformValidation)) (\<lambda>_.
      andthen (wait_job E TransformValidation) (\<lambda>_.
      andthen (log (ReadOutput TransformValidation)) (\<lambda>_.
      let preprocessed_validation_path = tf_output_path transformer_validation @ job_name E TransformValidation in
      andthen (print preprocessed_validation_path) (\<lambda>_.
      return preprocessed_validation_path))))))"

text \<open>Lines 348-398; \<open>xgboost_image_uri\<close> is the \<^verbatim>\<open>container\<close> of line 332.\<close>

definition xgb :: "platform \<Rightarrow> estimator" where
  "xgb E =
     \<lparr>est_image_uri = xgboost_image_uri E, est_entry_point = None, est_role = role E,
      est_instance_count = 1, est_instance_type = ''ml.m4.xlarge'',
      est_output_path = Some (''s3://'' @ bucket @ ''/'' @ prefix_str @ ''/output''),
      est_hyperparameters =
        [(''max_depth'', ''5''), (''eta'', ''0.2''), (''gamma'', ''4''), (''min_child_weight'', ''6''),
         (''subsample'', ''0.8''), (''objective'', ''binary:logistic''), (''num_round'', ''100'')]\<rparr>"

definition train_cell :: "platform \<Rightarrow> string \<Rightarrow> string \<Rightarrow> unit action" where
  "train_cell E preprocessed_train_path preprocessed_validation_path =
     (let s3_input_train_processed =
            TrainingInput preprocessed_train_path (Some ''FullyReplicated'') (Some ''text/csv'')
      in
      andthen (log (PrintConfig s3_input_train_processed)) (\<lambda>_.
      let s3_input_validation_processed =
            TrainingInput preprocessed_validation_path (Some ''FullyReplicated'') (Some ''text/csv'')
      in
      andthen (log (PrintConfig s3_input_validation_processed)) (\<lambda>_.
      fit E XGBoostFit (xgb E)
        [(''train'', s3_input_train_processed), (''validation'', s3_input_validation_processed)])))"

text \<open>Lines 414-422; the transformer built there is never used.\<close>

definition postprocess_cell :: "platform \<Rightarrow> sk_model action" where
  "postprocess_cell E =
     create_model E PreprocessFit (sklearn_preprocessor E) [(''TRANSFORM_MODE'', ''inverse-label-transform'')]"

text \<open>Lines 439-475.\<close>

definition model_name :: "struct_time \<Rightarrow> string" where
  "model_name t = ''QS-inference-pipeline-'' @ strftime t"

definition sklearn_environment :: "platform \<Rightarrow> string \<Rightarrow> (string \<times> string) list" where
  "sklearn_environment E mode =
     [(''SAGEMAKER_SUBMIT_DIRECTORY'', uploaded_code_s3_prefix E),
      (''TRANSFORM_MODE'', mode),
      (''SAGEMAKER_CONTAINER_LOG_LEVEL'', str_nat (container_log_level E)),
      (''SAGEMAKER_REGION'', boto_region_name E),
      (''SAGEMAKER_PROGRAM'', uploaded_code_script_name E)]"

definition register_cell :: "platform \<Rightarrow> sk_model \<Rightarrow> string action" where
  "register_cell E scikit_learn_post_process_model =
     andthen (estimator_model_data E PreprocessFit) (\<lambda>sklearn_model_data.
     andthen (estimator_model_data E XGBoostFit) (\<lambda>xgb_model_data.
     andthen (client_create_model (model_name (gmtime E))
        [\<lparr>Image = est_image_uri (sklearn_preprocessor E), ModelDataUrl = sklearn_model_data,
          Environment = sklearn_environment E ''feature-transform''\<rparr>,
         \<lparr>Image = est_image_uri (xgb E), ModelDataUrl = xgb_model_data, Environment = []\<rparr>,
         \<lparr>Image = image_uri scikit_learn_post_process_model,
          ModelDataUrl = model_data scikit_learn_post_process_model,
          Environment = sklearn_environment E ''inverse-label-transform''\<rparr>]
        (role E)) (\<lambda>_.
     return (model_name (gmtime E)))))"

text \<open>The notebook, run from its first cell to its last.\<close>

definition cells_after_split :: "platform \<Rightarrow> string action" where
  "cells_after_split E =
     andthen upload_cell (\<lambda>_.
     andthen (preprocess_cell E) (\<lambda>_.
     andthen (transform_train_cell E) (\<lambda>(scikit_learn_inferencee_model, preprocessed_train_path).
     andthen (transform_validation_cell E scikit_learn_inferencee_model) (\<lambda>preprocessed_validation_path.
     andthen (train_cell E preprocessed_train_path preprocessed_validation_path) (\<lambda>_.
     andthen (postprocess_cell E) (\<lambda>scikit_learn_post_process_model.
     register_cell E scikit_learn_post_process_model))))))"

definition run_all :: "platform \<Rightarrow> dataframe \<Rightarrow> string action" where
  "run_all E churn = andthen (split_cell E churn) (\<lambda>_. cells_after_split E)"

subsection \<open>What the cells submit\<close>

text \<open>
  The four job requests and the container list that the cells build, written out; the
  lemma \<open>run_scenarios\<close> below shows that a run submits exactly these.
\<close>

definition fit_request :: "platform \<Rightarrow> request" where
  "fit_request E = TrainingRequest (sklearn_preprocessor E) [(''train'', s3_input_train)]"

definition inference_model :: "platform \<Rightarrow> sk_model" where
  "inference_model E =
     \<lparr>image_uri = sklearn_image_uri E, model_data = artifact E PreprocessFit,
      env = [(''TRANSFORM_MODE'', ''feature-transform'')]\<rparr>"

definition train_transform_request :: "platform \<Rightarrow> request" where
  "train_transform_request E =
     TransformRequest
       \<lparr>tf_model = inference_model E, tf_instance_count = 1, tf_instance_type = ''local'',
        tf_assemble_with = ''Line'', tf_output_path = transform_train_output_path,
        tf_accept = ''text/csv''\<rparr>
       (S3Uri s3_input_train) ''text/csv''"

definition validation_transform_request :: "platform \<Rightarrow> request" where
  "validation_transform_request E =
     TransformRequest
       \<lparr>tf_model = inference_model E, tf_instance_count = 1, tf_instance_type = ''local'',
        tf_assemble_with = ''Line'', tf_output_path = transform_validation_output_path,
        tf_accept = ''text/csv''\<rparr>
       (S3Uri s3_input_validation) ''text/csv''"

definition training_request :: "platform \<Rightarrow> request" where
  "training_request E =
     TrainingRequest (xgb E)
       [(''train'', TrainingInput (transform_train_output_path @ job_name E TransformTrain)
                      (Some ''FullyReplicated'') (Some ''text/csv'')),
        (''validation'', TrainingInput (transform_validation_output_path @ job_name E TransformValidation)
                      (Some ''FullyReplicated'') (Some ''text/csv''))]"

definition pipeline_containers :: "platform \<Rightarrow> container list" where
  "pipeline_containers E =
     [\<lparr>Image = sklearn_image_uri E, ModelDataUrl = artifact E PreprocessFit,
       Environment = sklearn_environment E ''feature-transform''\<rparr>,
      \<lparr>Image = xgboost_image_uri E, ModelDataUrl = artifact E XGBoostFit, Environment = []\<rparr>,
      \<lparr>Image = sklearn_image_uri E, ModelDataUrl = artifact E PreprocessFit,
       Environment = sklearn_environment E ''inverse-label-transform''\<rparr>]"

subsection \<open>Properties of traces\<close>

text \<open>
  \<open>precedes P Q es\<close>: no event with \<open>Q\<close> occurs in \<open>es\<close> before the first event with \<open>P\<close>.
  \<open>next_call es\<close>: the first event of \<open>es\<close> that is not a print.
  \<open>waits_follow es\<close>: the call after each submission is a wait on the submitted job.
  \<open>one_at_a_time cur es\<close>: with \<open>cur\<close> the job in flight, a job is submitted in \<open>es\<close>
  only when none is in flight.
\<close>

fun precedes :: "(event \<Rightarrow> bool) \<Rightarrow> (event \<Rightarrow> bool) \<Rightarrow> event list \<Rightarrow> bool" where
  "precedes P Q [] = True"
| "precedes P Q (e # es) = (if P e then True else \<not> Q e \<and> precedes P Q es)"

fun is_submit :: "job \<Rightarrow> event \<Rightarrow> bool" where
  "is_submit j (Submit j' req inputs) = (j' = j)"
| "is_submit j e = False"

fun is_create_model :: "event \<Rightarrow> bool" where
  "is_create_model (CreateModel name cs execution_role) = True"
| "is_create_model e = False"

fun next_call :: "event list \<Rightarrow> event option" where
  "next_call [] = None"
| "next_call (Print s # es) = next_call es"
| "next_call (PrintConfig c # es) = next_call es"
| "next_call (e # es) = Some e"

fun waits_follow :: "event list \<Rightarrow> bool" where
  "waits_follow [] = True"
| "waits_follow (Submit j req inputs # es) = (next_call es = Some (Wait j) \<and> waits_follow es)"
| "waits_follow (e # es) = waits_follow es"

fun one_at_a_time :: "job option \<Rightarrow> event list \<Rightarrow> bool" where
  "one_at_a_time cur [] = True"
| "one_at_a_time cur (Submit j req inputs # es) = (cur = None \<and> one_at_a_time (Some j) es)"
| "one_at_a_time cur (Returned j # es) = one_at_a_time (if cur = Some j then None else cur) es"
| "one_at_a_time cur (Raised j # es) = one_at_a_time (if cur = Some j then None else cur) es"
| "one_at_a_time cur (e # es) = one_at_a_time cur es"


text \<open>
  The events of the calls, by outcome: the three uploads; a fit (submission, wait, and
  the wait returning or raising); a transform with its print and its wait, on a
  platform where \<^verbatim>\<open>transform\<close> blocks or does not.
\<close>

definition uploaded :: "csv \<Rightarrow> csv \<Rightarrow> csv \<Rightarrow> (string \<rightharpoonup> csv) \<Rightarrow> (string \<rightharpoonup> csv)" where
  "uploaded a b c store =
     store(s3_uri bucket (path_join prefix_str ''rawtrain/train.csv'') \<mapsto> a,
           s3_uri bucket (path_join prefix_str ''rawvalidation/validation.csv'') \<mapsto> b,
           s3_uri bucket (path_join prefix_str ''rawtest/test.csv'') \<mapsto> c)"

definition upload_events :: "event list" where
  "upload_events =
     [Upload (s3_uri bucket (path_join prefix_str ''rawtrain/train.csv'')),
      Upload (s3_uri bucket (path_join prefix_str ''rawvalidation/validation.csv'')),
      Upload (s3_uri bucket (path_join prefix_str ''rawtest/test.csv''))]"

definition fit_events :: "job \<Rightarrow> request \<Rightarrow> (string \<rightharpoonup> csv) \<Rightarrow> bool \<Rightarrow> event list" where
  "fit_events j req inputs ok = [Submit j req inputs, Wait j, if ok then Returned j else Raised j]"

definition transform_events ::
  "bool \<Rightarrow> job \<Rightarrow> request \<Rightarrow> (string \<rightharpoonup> csv) \<Rightarrow> string \<Rightarrow> bool \<Rightarrow> event list" where
  "transform_events blocks j req inputs s ok =
     Submit j req inputs #
       (if blocks
        then (if ok then [Wait j, Returned j, Print s, Wait j, Returned j] else [Wait j, Raised j])
        else [Print s, Wait j, if ok then Returned j else Raised j])"

subsection \<open>Concrete inputs\<close>

text \<open>
  A frame of ten records, a frame of 3,333 records, two generators that agree on every
  seed and differ on the ambient state, and a platform on which every job completes.
\<close>

definition demo_frame :: dataframe where
  "demo_frame = \<lparr>columns = [''State'', ''Churn?''],
     rows = [(0, [''OH'', ''False.'']), (1, [''NJ'', ''True.'']), (2, [''KS'', ''False.'']),
             (3, [''OK'', ''False.'']), (4, [''AL'', ''True.'']), (5, [''MA'', ''False.'']),
             (6, [''MO'', ''False.'']), (7, [''LA'', ''True.'']), (8, [''WV'', ''False.'']),
             (9, [''IN'', ''True.''])]\<rparr>"

definition other_frame :: dataframe where
  "other_frame = demo_frame\<lparr>rows := (rows demo_frame)[0 := (0, [''TX'', ''True.''])]\<rparr>"

definition frame_3333 :: dataframe where
  "frame_3333 = \<lparr>columns = [''Churn?''], rows = map (\<lambda>i. (i, [''False.''])) [0..<3333]\<rparr>"

definition demo_rng :: "nat option \<Rightarrow> nat \<Rightarrow> nat list" where
  "demo_rng random_state n = (case random_state of None \<Rightarrow> [0..<n] | Some seed \<Rightarrow> rev [0..<n])"

definition other_rng :: "nat option \<Rightarrow> nat \<Rightarrow> nat list" where
  "other_rng random_state n = rev [0..<n]"

definition demo_platform :: platform where
  "demo_platform =
     \<lparr>rng = demo_rng, role = ''arn:aws:iam::111122223333:role/notebook'',
      boto_region_name = ''us-east-1'', sklearn_image_uri = ''sklearn:0.20.0'',
      xgboost_image_uri = ''xgboost:1.2-1'',
      job_name = (\<lambda>j. case j of PreprocessFit \<Rightarrow> ''fit-1'' | TransformTrain \<Rightarrow> ''transform-1''
                          | TransformValidation \<Rightarrow> ''transform-2'' | XGBoostFit \<Rightarrow> ''xgboost-1''),
      artifact = (\<lambda>j. case j of XGBoostFit \<Rightarrow> ''s3://artifacts/xgboost-1/model.tar.gz''
                          | _ \<Rightarrow> ''s3://artifacts/fit-1/model.tar.gz''),
      job_result = (\<lambda>j req inputs. Some Map.empty),
      transform_blocks = True,
      uploaded_code_s3_prefix = ''s3://artifacts/fit-1/source/sourcedir.tar.gz'',
      uploaded_code_script_name = ''preprocessing.py'',
      container_log_level = 20,
      gmtime = \<lparr>tm_year = 2020, tm_mon = 7, tm_mday = 4, tm_hour = 9, tm_min = 30, tm_sec = 5\<rparr>\<rparr>"




section \<open>Rounding and split points\<close>

lemma bit_length_upper: "n < 2 ^ bit_length n"
proof (induction n rule: bit_length.induct)
  case (1 n)
  show ?case
  proof (cases "n = 0")
    case True
    then show ?thesis by (simp add: bit_length.simps)
  next
    case False
    with 1 have "n div 2 < 2 ^ bit_length (n div 2)" by simp
    then have "n < 2 * 2 ^ bit_length (n div 2)" by linarith
    with False show ?thesis by (simp add: bit_length.simps[of n])
  qed
qed

lemma bit_length_lower: "0 < n \<Longrightarrow> 2 ^ (bit_length n - 1) \<le> n"
proof (induction n rule: bit_length.induct)
  case (1 n)
  show ?case
  proof (cases "n div 2 = 0")
    case True
    with 1(2) have "n = 1" by (simp add: div_eq_0_iff) 
    then show ?thesis by (simp add: bit_length.simps)
  next
    case False
    with 1 have ih: "2 ^ (bit_length (n div 2) - 1) \<le> n div 2" by simp
    from False have "bit_length (n div 2) \<noteq> 0" by (simp add: bit_length.simps[of "n div 2"])
    then obtain k where k: "bit_length (n div 2) = Suc k" by (cases "bit_length (n div 2)") auto
    from ih k have "2 * 2 ^ k \<le> n" by simp
    with 1(2) k show ?thesis by (simp add: bit_length.simps[of n])
  qed
qed

lemma bit_length_mono: "m \<le> n \<Longrightarrow> bit_length m \<le> bit_length n"
proof (induction n arbitrary: m rule: bit_length.induct)
  case (1 n)
  show ?case
  proof (cases "m = 0")
    case True
    then show ?thesis by (simp add: bit_length.simps)
  next
    case False
    with 1(2) have n: "n \<noteq> 0" by simp
    from 1(2) have "m div 2 \<le> n div 2" by (rule div_le_mono)
    with 1(1) n have "bit_length (m div 2) \<le> bit_length (n div 2)" by simp
    with False n show ?thesis by (simp add: bit_length.simps[of n] bit_length.simps[of m])
  qed
qed


lemma round_to_lower: "(p div 2 ^ s) * 2 ^ s \<le> round_to s p"
  by (simp add: round_to_def Let_def)

lemma round_to_upper: "round_to s p \<le> (p div 2 ^ s + 1) * 2 ^ s"
  by (simp add: round_to_def Let_def)

lemma round_to_mono_same_quot:
  assumes "p \<le> p'" and q: "p div 2 ^ s = p' div 2 ^ s"
  shows "round_to s p \<le> round_to s p'"
proof -
  from div_mult_mod_eq[of p "2 ^ s"] div_mult_mod_eq[of p' "2 ^ s"] assms
  have "p mod 2 ^ s \<le> p' mod 2 ^ s"
    by simp
  with q show ?thesis
    by (auto simp: round_to_def Let_def)
qed

lemma round_to_mono: 
  assumes "p \<le> p'"
  shows "round_to s p \<le> round_to s p'"
proof (cases "p div 2 ^ s = p' div 2 ^ s")
  case True
  with assms show ?thesis by (rule round_to_mono_same_quot)
next
  case False
  moreover from assms have "p div 2 ^ s \<le> p' div 2 ^ s" by (rule div_le_mono)
  ultimately have "p div 2 ^ s + 1 \<le> p' div 2 ^ s" by simp
  then have "(p div 2 ^ s + 1) * 2 ^ s \<le> (p' div 2 ^ s) * 2 ^ s"
    by (rule mult_le_mono1)
  with round_to_upper[of s p] round_to_lower[of p' s] show ?thesis by linarith
qed

lemma round_to_le_power:
  assumes "p < 2 ^ l" and "s \<le> l"
  shows "round_to s p \<le> 2 ^ l"
proof -
  from assms have "p < 2 ^ (l - s) * 2 ^ s" by (simp flip: power_add)
  then have "p div 2 ^ s < 2 ^ (l - s)" by (simp add: less_mult_imp_div_less)
  then have "(p div 2 ^ s + 1) * 2 ^ s \<le> 2 ^ (l - s) * 2 ^ s"
    by (intro mult_le_mono1) simp
  also from assms have "\<dots> = 2 ^ l" by (simp flip: power_add)
  finally show ?thesis using round_to_upper[of s p] by linarith
qed

lemma round_to_ge_power:
  assumes "2 ^ l \<le> p" and "s \<le> l"
  shows "2 ^ l \<le> round_to s p"
proof -
  from assms have "(2::nat) ^ l = 2 ^ (l - s) * 2 ^ s" by (simp flip: power_add)
  with assms have "2 ^ (l - s) * 2 ^ s \<le> p" by simp
  then have "2 ^ (l - s) \<le> p div 2 ^ s" by (simp add: less_eq_div_iff_mult_less_eq)
  then have "2 ^ (l - s) * 2 ^ s \<le> (p div 2 ^ s) * 2 ^ s" by (rule mult_le_mono1)
  with \<open>(2::nat) ^ l = 2 ^ (l - s) * 2 ^ s\<close> round_to_lower[of p s] show ?thesis by linarith
qed

lemma round53_mono:
  assumes "p \<le> p'"
  shows "round53 p \<le> round53 p'"
proof (cases "bit_length p - 53 = bit_length p' - 53")
  case True
  with assms show ?thesis by (simp add: round53_def round_to_mono)
next
  case False
  from assms have le: "bit_length p \<le> bit_length p'" by (rule bit_length_mono)
  with False have lt: "bit_length p < bit_length p'" and big: "53 < bit_length p'" by linarith+
  from big have "0 < p'" by (cases "p' = 0") (simp_all add: bit_length.simps)
  have "round53 p \<le> 2 ^ bit_length p"
    unfolding round53_def by (rule round_to_le_power) (simp_all add: bit_length_upper)
  also from lt have "\<dots> \<le> 2 ^ (bit_length p' - 1)" by (intro power_increasing) simp_all
  also have "\<dots> \<le> round53 p'"
    unfolding round53_def using bit_length_lower[OF \<open>0 < p'\<close>] big
    by (intro round_to_ge_power) simp_all
  finally show ?thesis .
qed


lemma bit_length_double: "0 < n \<Longrightarrow> bit_length (2 * n) = Suc (bit_length n)"
  by (simp add: bit_length.simps[of "2 * n"])

lemma bit_length_shift: "0 < n \<Longrightarrow> bit_length (n * 2 ^ j) = bit_length n + j"
proof (induction j)
  case 0
  then show ?case by simp
next
  case (Suc j)
  then have "bit_length (2 * (n * 2 ^ j)) = Suc (bit_length (n * 2 ^ j))"
    by (intro bit_length_double) simp
  with Suc show ?case by (simp add: mult.commute mult.left_commute)
qed

lemma round_to_exact: 
  assumes "s \<le> j"
  shows "round_to s (p * 2 ^ j) = p * 2 ^ j"
proof -
  from assms have "(2::nat) ^ j = 2 ^ (j - s) * 2 ^ s" by (simp flip: power_add)
  then have eq: "p * 2 ^ j = (p * 2 ^ (j - s)) * 2 ^ s" by simp
  show ?thesis
    unfolding round_to_def Let_def by (subst (1 2 3 4) eq) simp
qed

lemma round_to_shift: "round_to (s + j) (p * 2 ^ j) = round_to s p * 2 ^ j"
proof -
  have d: "(p * 2 ^ j) div 2 ^ (s + j) = p div 2 ^ s"
    by (simp add: power_add mult.commute)
  have m: "(p * 2 ^ j) mod 2 ^ (s + j) = (p mod 2 ^ s) * 2 ^ j"
    by (simp add: power_add mult_mod_left mult.commute)
  have c1: "(2::nat) ^ (s + j) < 2 * (r * 2 ^ j) \<longleftrightarrow> 2 ^ s < 2 * r" for r :: nat
    by (simp add: power_add)
  have c2: "2 * (r * 2 ^ j) = (2::nat) ^ (s + j) \<longleftrightarrow> 2 * r = 2 ^ s" for r :: nat
    by (auto simp add: power_add)
  show ?thesis
    unfolding round_to_def Let_def d m c1 c2
    by (simp add: power_add algebra_simps)
qed

lemma round53_shift: "round53 (p * 2 ^ j) = round53 p * 2 ^ j"
proof (cases "p = 0")
  case True
  then show ?thesis by (simp add: round53_def round_to_def)
next
  case False
  then have bl: "bit_length (p * 2 ^ j) = bit_length p + j" by (simp add: bit_length_shift)
  show ?thesis
  proof (cases "53 \<le> bit_length p")
    case True
    then have "bit_length p + j - 53 = (bit_length p - 53) + j" by simp
    then show ?thesis by (simp add: round53_def bl round_to_shift)
  next
    case False
    then have z: "bit_length p - 53 = 0" and le: "bit_length p + j - 53 \<le> j" by simp_all
    from z have "round53 p = p" by (simp add: round53_def round_to_def)
    moreover from le have "round53 (p * 2 ^ j) = p * 2 ^ j"
      by (simp add: round53_def bl round_to_exact)
    ultimately show ?thesis by simp
  qed
qed


lemma int_float_mul_mono:
  assumes "float_le f g"
  shows "int_float_mul f n \<le> int_float_mul g n"
proof -
  define k where "k = round53 n"
  define a where "a = round53 (mant f * k)"
  define b where "b = round53 (mant g * k)"
  from assms have "mant f * k * 2 ^ expo g \<le> mant g * k * 2 ^ expo f"
    by (simp add: float_le_def mult.commute mult.left_commute)
  then have "round53 (mant f * k * 2 ^ expo g) \<le> round53 (mant g * k * 2 ^ expo f)"
    by (rule round53_mono)
  then have le: "a * 2 ^ expo g \<le> b * 2 ^ expo f"
    by (simp add: round53_shift a_def b_def)
  have "a div 2 ^ expo f = (a * 2 ^ expo g) div (2 ^ expo f * 2 ^ expo g)"
    by simp
  also from le have "\<dots> \<le> (b * 2 ^ expo f) div (2 ^ expo f * 2 ^ expo g)"
    by (rule div_le_mono)
  also have "\<dots> = b div 2 ^ expo g"
    by (simp add: mult.commute)
  finally show ?thesis
    by (simp add: int_float_mul_def a_def b_def k_def)
qed

lemma float_0_7_le_0_9: "float_le float_0_7 float_0_9"
  by (simp add: float_le_def float_0_7_def float_0_9_def)

section \<open>The splitter\<close>

lemma take_rows_perm:
  assumes "mset locs = mset [0..<len df]"
  shows "take_rows locs df = Inr (df\<lparr>rows := map (\<lambda>i. rows df ! i) locs\<rparr>)"
proof -
  from assms have "set locs = {0..<len df}" by (metis mset_eq_setD set_upt)
  then have "list_all (\<lambda>i. i < len df) locs" by (auto simp: list_all_iff)
  then show ?thesis by (simp add: take_rows_def)
qed

lemma mset_map_nth_perm:
  assumes "mset locs = mset [0..<length xs]"
  shows "mset (map (\<lambda>i. xs ! i) locs) = mset xs"
proof -
  have "mset (map (\<lambda>i. xs ! i) locs) = image_mset (\<lambda>i. xs ! i) (mset locs)" by simp
  also have "\<dots> = mset (map (\<lambda>i. xs ! i) [0..<length xs])" using assms by simp
  also have "\<dots> = mset xs" by (simp add: map_nth)
  finally show ?thesis .
qed

lemma three_slices:
  assumes "a \<le> b"
  shows "take a xs @ drop a (take b xs) @ drop b (take (length xs) xs) = xs"
proof -
  from assms have "take a xs = take a (take b xs)" by (simp add: min_def)
  then have "take a xs @ drop a (take b xs) = take b xs" by (metis append_take_drop_id)
  then show ?thesis by (metis append.assoc append_take_drop_id take_all order_refl)
qed

lemma np_split_two:
  "np_split df [a, b] = [slice 0 a df, slice a b df, slice b (len df) df]"
  by (simp add: np_split_def)

lemma splitter_result:
  assumes perm: "mset (g (Some seed) (len churn)) = mset [0..<len churn]"
  shows "splitter g seed f1 f2 churn =
     Inr (slice 0 (int_float_mul f1 (len churn)) (churn\<lparr>rows := map (\<lambda>i. rows churn ! i) (g (Some seed) (len churn))\<rparr>),
          slice (int_float_mul f1 (len churn)) (int_float_mul f2 (len churn)) (churn\<lparr>rows := map (\<lambda>i. rows churn ! i) (g (Some seed) (len churn))\<rparr>),
          slice (int_float_mul f2 (len churn)) (length (g (Some seed) (len churn))) (churn\<lparr>rows := map (\<lambda>i. rows churn ! i) (g (Some seed) (len churn))\<rparr>))"
  unfolding splitter_def sample_def take_rows_perm[OF perm] np_split_two
  by (simp add: len_def)

text \<open>
  C1. For every frame, every seed and every pair of cumulative split fractions
  \<open>f1 \<le> f2\<close>, whenever the generator's draw is a permutation of the row positions
  (as a draw without replacement of all rows is) and the index labels are distinct (as
  those of a frame read from a file are), the splitter returns three frames whose rows,
  in this order, are the shuffled frame; so every record is in exactly one of them, the
  sets of index labels are pairwise disjoint, and their union is the original set.
\<close>

theorem splitter_partitions:
  assumes perm: "mset (g (Some seed) (len churn)) = mset [0..<len churn]"
    and frac: "float_le f1 f2"
    and labels: "distinct (map fst (rows churn))"
  shows "\<exists>train_data validation_data test_data.
           splitter g seed f1 f2 churn = Inr (train_data, validation_data, test_data)
         \<and> rows train_data @ rows validation_data @ rows test_data
             = map (\<lambda>i. rows churn ! i) (g (Some seed) (len churn))
         \<and> mset (rows train_data) + mset (rows validation_data) + mset (rows test_data)
             = mset (rows churn)
         \<and> set (rows train_data) \<union> set (rows validation_data) \<union> set (rows test_data)
             = set (rows churn)
         \<and> fst ` set (rows train_data) \<inter> fst ` set (rows validation_data) = {}
         \<and> fst ` set (rows train_data) \<inter> fst ` set (rows test_data) = {}
         \<and> fst ` set (rows validation_data) \<inter> fst ` set (rows test_data) = {}"
proof -
  define S where "S = map (\<lambda>i. rows churn ! i) (g (Some seed) (len churn))"
  define a where "a = int_float_mul f1 (len churn)"
  define b where "b = int_float_mul f2 (len churn)"
  define tr where "tr = slice 0 a (churn\<lparr>rows := S\<rparr>)"
  define va where "va = slice a b (churn\<lparr>rows := S\<rparr>)"
  define te where "te = slice b (length S) (churn\<lparr>rows := S\<rparr>)"
  from frac have ab: "a \<le> b" unfolding a_def b_def by (rule int_float_mul_mono)
  have res: "splitter g seed f1 f2 churn = Inr (tr, va, te)"
    using perm unfolding tr_def va_def te_def S_def a_def b_def length_map
    by (rule splitter_result)
  have cat: "rows tr @ rows va @ rows te = S"
    using three_slices[OF ab, of S] by (simp add: tr_def va_def te_def slice_def)
  from perm have mS: "mset S = mset (rows churn)"
    unfolding S_def len_def by (rule mset_map_nth_perm)
  from cat mS have m: "mset (rows tr) + mset (rows va) + mset (rows te) = mset (rows churn)"
    by (metis mset_append add.assoc)
  from cat mS have s: "set (rows tr) \<union> set (rows va) \<union> set (rows te) = set (rows churn)"
    by (metis set_append mset_eq_setD Un_assoc)
  from mS have "mset (map fst S) = mset (map fst (rows churn))" by (metis mset_map)
  with labels have "distinct (map fst S)" by (metis mset_eq_imp_distinct_iff)
  with cat have "distinct (map fst (rows tr) @ map fst (rows va) @ map fst (rows te))"
    by (metis map_append)
  then have d: "fst ` set (rows tr) \<inter> fst ` set (rows va) = {}"
       "fst ` set (rows tr) \<inter> fst ` set (rows te) = {}"
       "fst ` set (rows va) \<inter> fst ` set (rows te) = {}"
    by auto
  from res cat m s d show ?thesis unfolding S_def by blast
qed

lemma len_update: "len (df\<lparr>rows := r\<rparr>) = length r" by (simp add: len_def)

lemma len_demo: "len demo_frame = 10" by (simp add: len_def demo_frame_def)

lemma sp7: "int_float_mul float_0_7 10 = 7" 
  by (simp add: int_float_mul_def float_0_7_def round53_def round_to_def bit_length.simps Let_def)

lemma sp9: "int_float_mul float_0_9 10 = 9" 
  by (simp add: int_float_mul_def float_0_9_def round53_def round_to_def bit_length.simps Let_def)

lemma demo_split: "splitter demo_rng 1729 float_0_7 float_0_9 demo_frame =
   Inr (\<lparr>columns = [''State'', ''Churn?''],
     rows = [(9, [''IN'', ''True.'']), (8, [''WV'', ''False.'']), (7, [''LA'', ''True.'']), (6, [''MO'', ''False.'']),
             (5, [''MA'', ''False.'']), (4, [''AL'', ''True.'']), (3, [''OK'', ''False.''])]\<rparr>,
        \<lparr>columns = [''State'', ''Churn?''], rows = [(2, [''KS'', ''False.'']), (1, [''NJ'', ''True.''])]\<rparr>,
        \<lparr>columns = [''State'', ''Churn?''], rows = [(0, [''OH'', ''False.''])]\<rparr>)"
  by (simp add: splitter_def sample_def take_rows_def len_demo len_update demo_rng_def np_split_def slice_def sp7 sp9 upt_conv_Cons)
     (simp add: demo_frame_def)

theorem splitter_partitions_witness:
  "mset (demo_rng (Some 1729) (len demo_frame)) = mset [0..<len demo_frame]
   \<and> float_le float_0_7 float_0_9
   \<and> distinct (map fst (rows demo_frame))
   \<and> (\<exists>train_data validation_data test_data.
           splitter demo_rng 1729 float_0_7 float_0_9 demo_frame = Inr (train_data, validation_data, test_data)
         \<and> rows train_data @ rows validation_data @ rows test_data
             = map (\<lambda>i. rows demo_frame ! i) (demo_rng (Some 1729) (len demo_frame))
         \<and> mset (rows train_data) + mset (rows validation_data) + mset (rows test_data)
             = mset (rows demo_frame)
         \<and> set (rows train_data) \<union> set (rows validation_data) \<union> set (rows test_data)
             = set (rows demo_frame)
         \<and> fst ` set (rows train_data) \<inter> fst ` set (rows validation_data) = {}
         \<and> fst ` set (rows train_data) \<inter> fst ` set (rows test_data) = {}
         \<and> fst ` set (rows validation_data) \<inter> fst ` set (rows test_data) = {})"
proof -
  have h1: "mset (demo_rng (Some 1729) (len demo_frame)) = mset [0..<len demo_frame]"
    by (simp add: demo_rng_def)
  have h3: "distinct (map fst (rows demo_frame))"
    by (simp add: demo_frame_def)
  from h1 float_0_7_le_0_9 h3
    splitter_partitions[of demo_rng 1729 demo_frame float_0_7 float_0_9, OF h1 float_0_7_le_0_9 h3]
  show ?thesis by blast
qed

section \<open>Partition sizes\<close>

lemma split_point_0_7_3333: "int_float_mul float_0_7 3333 = 2333"
  by (simp add: int_float_mul_def float_0_7_def round53_def round_to_def bit_length.simps Let_def)

lemma split_point_0_9_3333: "int_float_mul float_0_9 3333 = 2999"
  by (simp add: int_float_mul_def float_0_9_def round53_def round_to_def bit_length.simps Let_def)

lemma sizes_3333:
  assumes perm: "mset (g (Some 1729) (len churn)) = mset [0..<len churn]"
    and n: "len churn = 3333"
  shows "\<exists>train_data validation_data test_data.
           train_validation_test g churn = Inr (train_data, validation_data, test_data)
         \<and> len train_data = 2333 \<and> len validation_data = 666 \<and> len test_data = 334"
proof -
  from perm have "length (g (Some 1729) (len churn)) = len churn"
    by (metis size_mset length_upt diff_zero)
  with n have l: "length (g (Some 1729) 3333) = 3333" by simp
  show ?thesis
    unfolding train_validation_test_def splitter_result[of g 1729 churn, OF perm] n
    by (simp add: l split_point_0_7_3333 split_point_0_9_3333 slice_def len_update)
qed

lemma perm_frame_3333: "mset (demo_rng (Some 1729) (len frame_3333)) = mset [0..<len frame_3333]"
  by (simp add: demo_rng_def)

lemma len_frame_3333: "len frame_3333 = 3333"
  by (simp add: len_def frame_3333_def)

text \<open>
  C2, as amended. On a frame of exactly 3,333 records the split points are
  \<open>int(0.7 * 3333) = 2333\<close> and \<open>int(0.9 * 3333) = 2999\<close>, so the train partition has
  2,333 records, the validation partition 666 and the test partition the remaining 334.
\<close>

theorem partition_sizes_3333:
  assumes "mset (g (Some 1729) (len churn)) = mset [0..<len churn]"
    and "len churn = 3333"
  shows "int_float_mul float_0_7 (len churn) = 2333
       \<and> int_float_mul float_0_9 (len churn) = 2999
       \<and> (\<exists>train_data validation_data test_data.
             train_validation_test g churn = Inr (train_data, validation_data, test_data)
           \<and> len train_data = 2333 \<and> len validation_data = 666 \<and> len test_data = 334)"
  using assms sizes_3333[of g churn] by (simp add: split_point_0_7_3333 split_point_0_9_3333)

theorem partition_sizes_3333_witness:
  "mset (demo_rng (Some 1729) (len frame_3333)) = mset [0..<len frame_3333]
   \<and> len frame_3333 = 3333
   \<and> int_float_mul float_0_7 (len frame_3333) = 2333
   \<and> int_float_mul float_0_9 (len frame_3333) = 2999
   \<and> (\<exists>train_data validation_data test_data.
         train_validation_test demo_rng frame_3333 = Inr (train_data, validation_data, test_data)
       \<and> len train_data = 2333 \<and> len validation_data = 666 \<and> len test_data = 334)"
  using partition_sizes_3333[of demo_rng frame_3333] perm_frame_3333 len_frame_3333
  by blast

text \<open>
  On the frame of 3,333 records the split succeeds, and the validation partition (the
  second frame returned) has 666 records, not 667.
\<close>

theorem validation_667_counterexample:
  "len frame_3333 = 3333
   \<and> \<not> isl (train_validation_test demo_rng frame_3333)
   \<and> len (fst (projr (train_validation_test demo_rng frame_3333))) = 2333
   \<and> len (fst (snd (projr (train_validation_test demo_rng frame_3333)))) = 666
   \<and> len (fst (snd (projr (train_validation_test demo_rng frame_3333)))) \<noteq> 667"
proof -
  from sizes_3333[of demo_rng frame_3333] perm_frame_3333 len_frame_3333
  obtain tr va te where "train_validation_test demo_rng frame_3333 = Inr (tr, va, te)"
    "len tr = 2333" "len va = 666" by blast
  then show ?thesis by (simp add: len_frame_3333)
qed

section \<open>Reproducibility of the split\<close>

lemma splitter_cong:
  assumes "g1 (Some seed) (len churn) = g2 (Some seed) (len churn)"
  shows "splitter g1 seed f1 f2 churn = splitter g2 seed f1 f2 churn"
  using assms by (simp add: splitter_def sample_def)

text \<open>
  C3. The split cell passes the seed 1729 to the generator, so its result depends on
  the generator only through the draw of that seed: two runs on the same frame whose
  generators agree on seed 1729 (whatever their ambient states) return the same three
  frames, in the same shuffled order, and leave the same three files.
\<close>

theorem split_deterministic:
  assumes "rng E1 (Some 1729) (len churn) = rng E2 (Some 1729) (len churn)"
  shows "train_validation_test (rng E1) churn = train_validation_test (rng E2) churn
       \<and> split_cell E1 churn w = split_cell E2 churn w"
proof -
  from assms have "train_validation_test (rng E1) churn = train_validation_test (rng E2) churn"
    unfolding train_validation_test_def by (rule splitter_cong)
  then show ?thesis by (simp add: split_cell_def)
qed

theorem split_deterministic_witness:
  "rng demo_platform (Some 1729) (len demo_frame)
     = rng (demo_platform\<lparr>rng := other_rng\<rparr>) (Some 1729) (len demo_frame)
   \<and> rng demo_platform None (len demo_frame)
     \<noteq> rng (demo_platform\<lparr>rng := other_rng\<rparr>) None (len demo_frame)
   \<and> train_validation_test (rng demo_platform) demo_frame
     = train_validation_test (rng (demo_platform\<lparr>rng := other_rng\<rparr>)) demo_frame
   \<and> split_cell demo_platform demo_frame (fresh Map.empty Map.empty Map.empty)
     = split_cell (demo_platform\<lparr>rng := other_rng\<rparr>) demo_frame (fresh Map.empty Map.empty Map.empty)"
proof -
  have h: "rng demo_platform (Some 1729) (len demo_frame)
     = rng (demo_platform\<lparr>rng := other_rng\<rparr>) (Some 1729) (len demo_frame)"
    by (simp add: demo_platform_def demo_rng_def other_rng_def)
  have d: "rng demo_platform None (len demo_frame)
     \<noteq> rng (demo_platform\<lparr>rng := other_rng\<rparr>) None (len demo_frame)"
    by (simp add: demo_platform_def demo_rng_def other_rng_def len_demo upt_conv_Cons)
  from split_deterministic[of demo_platform demo_frame "demo_platform\<lparr>rng := other_rng\<rparr>", OF h] h d
  show ?thesis by blast
qed

section \<open>The files written by the split cell\<close>

lemma drop_label:
  assumes cols: "columns df = features @ [''Churn?'']" and nolabel: "''Churn?'' \<notin> set features"
    and rect: "\<forall>r \<in> set (rows df). length (snd r) = length (columns df)"
  shows "drop_column ''Churn?'' df =
           Inr \<lparr>columns = features, rows = map (\<lambda>(i, cells). (i, butlast cells)) (rows df)\<rparr>"
proof -
  from nolabel have f: "filter (\<lambda>c. c \<noteq> ''Churn?'') features = features"
    by (auto simp: filter_id_conv)
  have r: "map snd (filter (\<lambda>(c, v). c \<noteq> ''Churn?'') (zip (features @ [''Churn?'']) cells)) = butlast cells"
    if "length cells = length features + 1" for cells :: "string list"
  proof -
    from that have ne: "cells \<noteq> []" by auto
    then have c: "cells = butlast cells @ [last cells]" by simp
    from that have l: "length (butlast cells) = length features" by simp
    have "zip (features @ [''Churn?'']) cells = zip features (butlast cells) @ [(''Churn?'', last cells)]"
      by (subst c) (simp add: l[symmetric])
    moreover from nolabel have "filter (\<lambda>(c, v). c \<noteq> ''Churn?'') (zip features (butlast cells)) = zip features (butlast cells)"
      by (auto simp: filter_id_conv dest: set_zip_leftD)
    ultimately show ?thesis by (simp add: l[symmetric])
  qed
  have "map (\<lambda>(i, cells). (i, map snd (filter (\<lambda>(c, v). c \<noteq> ''Churn?'') (zip (columns df) cells)))) (rows df)
        = map (\<lambda>(i, cells). (i, butlast cells)) (rows df)"
    using rect by (auto simp: cols r)
  then show ?thesis by (simp add: drop_column_def cols f)
qed


lemma splitter_frames:
  assumes perm: "mset (g (Some seed) (len churn)) = mset [0..<len churn]"
  shows "\<exists>train_data validation_data test_data.
           splitter g seed f1 f2 churn = Inr (train_data, validation_data, test_data)
         \<and> columns train_data = columns churn \<and> set (rows train_data) \<subseteq> set (rows churn)
         \<and> columns validation_data = columns churn \<and> set (rows validation_data) \<subseteq> set (rows churn)
         \<and> columns test_data = columns churn \<and> set (rows test_data) \<subseteq> set (rows churn)"
proof -
  define S where "S = map (\<lambda>i. rows churn ! i) (g (Some seed) (len churn))"
  from perm have "mset S = mset (rows churn)"
    unfolding S_def len_def by (rule mset_map_nth_perm)
  then have S: "set S = set (rows churn)" by (rule mset_eq_setD)
  have "set (take n S) \<subseteq> set (rows churn)" "set (drop m (take n S)) \<subseteq> set (rows churn)"
    "set (drop m S) \<subseteq> set (rows churn)" for m n
    using S set_take_subset[of n S] set_drop_subset[of m "take n S"] set_drop_subset[of m S] by auto
  then show ?thesis
    unfolding splitter_result[of g seed churn, OF perm] slice_def S_def by simp
qed

text \<open>
  C4. For every frame whose last column is the label \<open>Churn?\<close> (the schema the notebook
  documents) and whose rows have one cell per column, the split cell leaves three
  files: \<open>train.csv\<close> and \<open>validation.csv\<close> hold exactly the rows of their partitions,
  with no header line, each line ending with the cell of the label column; \<open>test.csv\<close>
  starts with a header line naming the columns other than the label, followed by the
  rows of the test partition without their label cell.
\<close>

theorem split_cell_files:
  assumes perm: "mset (rng E (Some 1729) (len churn)) = mset [0..<len churn]"
    and cols: "columns churn = features @ [''Churn?'']"
    and nolabel: "''Churn?'' \<notin> set features"
    and rect: "\<forall>r \<in> set (rows churn). length (snd r) = length (columns churn)"
  shows "\<exists>train_data validation_data test_data w'.
           train_validation_test (rng E) churn = Inr (train_data, validation_data, test_data)
         \<and> split_cell E churn w = (Inr (), w')
         \<and> files w' ''train.csv'' = Some (map snd (rows train_data))
         \<and> files w' ''validation.csv'' = Some (map snd (rows validation_data))
         \<and> files w' ''test.csv'' = Some (features # map (\<lambda>(i, cells). butlast cells) (rows test_data))
         \<and> (\<forall>line \<in> set (map snd (rows train_data) @ map snd (rows validation_data)).
               length line = length features + 1
             \<and> last (zip (columns churn) line) = (''Churn?'', last line))
         \<and> (\<forall>(i, cells) \<in> set (rows test_data). length (butlast cells) = length features)"
proof -
  from splitter_frames[of "rng E" 1729 churn float_0_7 float_0_9, OF perm]
  obtain tr va te where res: "train_validation_test (rng E) churn = Inr (tr, va, te)"
    and tr: "columns tr = columns churn" "set (rows tr) \<subseteq> set (rows churn)"
    and va: "columns va = columns churn" "set (rows va) \<subseteq> set (rows churn)"
    and te: "columns te = columns churn" "set (rows te) \<subseteq> set (rows churn)"
    unfolding train_validation_test_def by blast
  from te rect cols have d: "drop_column ''Churn?'' te =
      Inr \<lparr>columns = features, rows = map (\<lambda>(i, cells). (i, butlast cells)) (rows te)\<rparr>"
    by (intro drop_label nolabel) auto
  define w' where "w' = w\<lparr>files := (files w)(''train.csv'' \<mapsto> to_csv False tr,
      ''validation.csv'' \<mapsto> to_csv False va,
      ''test.csv'' \<mapsto> to_csv True \<lparr>columns = features, rows = map (\<lambda>(i, cells). (i, butlast cells)) (rows te)\<rparr>)\<rparr>"
  have run: "split_cell E churn w = (Inr (), w')"
    by (simp add: split_cell_def res d andthen_def lift_def to_csv_file_def w'_def)
  have f1: "files w' ''train.csv'' = Some (map snd (rows tr))"
    and f2: "files w' ''validation.csv'' = Some (map snd (rows va))"
    and f3: "files w' ''test.csv'' = Some (features # map (\<lambda>(i, cells). butlast cells) (rows te))"
    by (simp_all add: w'_def to_csv_def case_prod_unfold comp_def)
  have full: "length line = length features + 1 \<and> last (zip (columns churn) line) = (''Churn?'', last line)"
    if "line \<in> snd ` set (rows churn)" for line
  proof -
    from that rect cols have l: "length line = length features + 1" by auto
    then have "line = butlast line @ [last line]" by (cases line rule: rev_cases) auto
    then have "zip (columns churn) line = zip features (butlast line) @ [(''Churn?'', last line)]"
      using l by (metis cols zip_append length_butlast add_diff_cancel_right' zip_Cons_Cons zip_Nil)
    with l show ?thesis by simp
  qed
  have lines: "\<forall>line \<in> set (map snd (rows tr) @ map snd (rows va)).
      length line = length features + 1 \<and> last (zip (columns churn) line) = (''Churn?'', last line)"
  proof
    fix line
    assume "line \<in> set (map snd (rows tr) @ map snd (rows va))"
    with tr(2) va(2) have "line \<in> snd ` set (rows churn)" by auto
    then show "length line = length features + 1 \<and> last (zip (columns churn) line) = (''Churn?'', last line)"
      by (rule full)
  qed
  from te rect cols have short: "\<forall>(i, cells) \<in> set (rows te). length (butlast cells) = length features"
    by fastforce
  from res run f1 f2 f3 lines short show ?thesis by blast
qed


lemma demo_split_cell_files:
  "files (snd (split_cell demo_platform demo_frame (fresh Map.empty Map.empty Map.empty))) ''test.csv''
     = Some [[''State''], [''OH'']]
   \<and> files (snd (split_cell demo_platform demo_frame (fresh Map.empty Map.empty Map.empty))) ''validation.csv''
     = Some [[''KS'', ''False.''], [''NJ'', ''True.'']]"
proof -
  have "rng demo_platform = demo_rng" by (simp add: demo_platform_def)
  then show ?thesis
    by (simp add: split_cell_def train_validation_test_def demo_split andthen_def lift_def
        to_csv_file_def drop_column_def to_csv_def fresh_def)
qed

theorem split_cell_files_witness:
  "mset (rng demo_platform (Some 1729) (len demo_frame)) = mset [0..<len demo_frame]
   \<and> columns demo_frame = [''State''] @ [''Churn?'']
   \<and> ''Churn?'' \<notin> set [''State'']
   \<and> list_all (\<lambda>r. length (snd r) = length (columns demo_frame)) (rows demo_frame)
   \<and> (\<exists>train_data validation_data test_data w'.
           train_validation_test (rng demo_platform) demo_frame = Inr (train_data, validation_data, test_data)
         \<and> split_cell demo_platform demo_frame (fresh Map.empty Map.empty Map.empty) = (Inr (), w')
         \<and> files w' ''train.csv'' = Some (map snd (rows train_data))
         \<and> files w' ''validation.csv'' = Some (map snd (rows validation_data))
         \<and> files w' ''test.csv'' = Some ([''State''] # map (\<lambda>(i, cells). butlast cells) (rows test_data))
         \<and> (\<forall>line \<in> set (map snd (rows train_data) @ map snd (rows validation_data)).
               length line = length [''State''] + 1
             \<and> last (zip (columns demo_frame) line) = (''Churn?'', last line))
         \<and> (\<forall>(i, cells) \<in> set (rows test_data). length (butlast cells) = length [''State'']))
   \<and> files (snd (split_cell demo_platform demo_frame (fresh Map.empty Map.empty Map.empty))) ''test.csv''
       = Some [[''State''], [''OH'']]"
proof -
  have h1: "mset (rng demo_platform (Some 1729) (len demo_frame)) = mset [0..<len demo_frame]"
    by (simp add: demo_platform_def demo_rng_def)
  have h2: "columns demo_frame = [''State''] @ [''Churn?'']" by (simp add: demo_frame_def)
  have h3: "''Churn?'' \<notin> set [''State'']" by simp
  have h4: "list_all (\<lambda>r. length (snd r) = length (columns demo_frame)) (rows demo_frame)"
    by (simp add: demo_frame_def)
  then have h4': "\<forall>r \<in> set (rows demo_frame). length (snd r) = length (columns demo_frame)"
    by (simp add: list_all_iff)
  from split_cell_files[of demo_platform demo_frame "[''State'']" "fresh Map.empty Map.empty Map.empty",
      OF h1 h2 h3 h4'] h1 h2 h3 h4 demo_split_cell_files
  show ?thesis by blast
qed

section \<open>Evaluating the cells\<close>

text \<open>
  Each library call, followed by the rest of the run \<open>k\<close>, as one step on the world.
\<close>

lemma andthen_assoc [simp]: "andthen (andthen m f) g = andthen m (\<lambda>x. andthen (f x) g)"
  by (rule ext) (simp add: andthen_def split: prod.splits sum.splits)

lemma andthen_return [simp]: "andthen (return x) k w = k x w"
  by (simp add: andthen_def return_def)

lemma andthen_log [simp]: "andthen (log ev) k w = k () (w\<lparr>trace := trace w @ [ev]\<rparr>)"
  by (simp add: andthen_def log_def)

lemma andthen_print [simp]: "andthen (print s) k w = k () (w\<lparr>trace := trace w @ [Print s]\<rparr>)"
  by (simp add: print_def)

lemma andthen_upload_file [simp]:
  "andthen (upload_file b key path) k w =
     (case files w path of
        None \<Rightarrow> (Inl (FileNotFoundError path), w)
      | Some body \<Rightarrow> k () (w\<lparr>s3 := (s3 w)(s3_uri b key \<mapsto> body), trace := trace w @ [Upload (s3_uri b key)]\<rparr>))"
  by (simp add: andthen_def upload_file_def split: option.splits)

lemma upload_file_last:
  "upload_file b key path w =
     (case files w path of
        None \<Rightarrow> (Inl (FileNotFoundError path), w)
      | Some body \<Rightarrow> (Inr (), w\<lparr>s3 := (s3 w)(s3_uri b key \<mapsto> body), trace := trace w @ [Upload (s3_uri b key)]\<rparr>))"
  by (simp add: upload_file_def)

lemma andthen_fit [simp]:
  "andthen (fit E j e inputs) k w =
     (case job_result E j (TrainingRequest e inputs) (visible (reads (TrainingRequest e inputs)) (s3 w)) of
        None \<Rightarrow> (Inl (JobFailed j),
           w\<lparr>jobs := (jobs w)(j \<mapsto> Failed),
             trace := trace w @ [Submit j (TrainingRequest e inputs) (visible (reads (TrainingRequest e inputs)) (s3 w)),
                                 Wait j, Raised j]\<rparr>)
      | Some outputs \<Rightarrow> k ()
          (w\<lparr>s3 := s3 w ++ outputs, jobs := (jobs w)(j \<mapsto> Completed),
             trace := trace w @ [Submit j (TrainingRequest e inputs) (visible (reads (TrainingRequest e inputs)) (s3 w)),
                                 Wait j, Returned j]\<rparr>))"
  by (simp add: fit_def submit_def wait_job_def andthen_def split: option.splits)

lemma andthen_estimator_model_data [simp]:
  "andthen (estimator_model_data E j) k w = k (artifact E j) (w\<lparr>trace := trace w @ [ReadOutput j]\<rparr>)"
  by (simp add: estimator_model_data_def andthen_def log_def return_def)

lemma andthen_create_model [simp]:
  "andthen (create_model E j e environment) k w =
     k \<lparr>image_uri = est_image_uri e, model_data = artifact E j, env = environment\<rparr>
       (w\<lparr>trace := trace w @ [ReadOutput j]\<rparr>)"
  by (simp add: create_model_def andthen_def estimator_model_data_def log_def return_def)

lemma andthen_transform_wait [simp]:
  "andthen (transform E j t data ct) (\<lambda>_. andthen (print s) (\<lambda>_. andthen (wait_job E j) k)) w =
     (case job_result E j (TransformRequest t data ct) (visible (reads (TransformRequest t data ct)) (s3 w)) of
        None \<Rightarrow> (Inl (JobFailed j),
           w\<lparr>jobs := (jobs w)(j \<mapsto> Failed),
             trace := trace w @ Submit j (TransformRequest t data ct) (visible (reads (TransformRequest t data ct)) (s3 w))
                       # (if transform_blocks E then [Wait j, Raised j] else [Print s, Wait j, Raised j])\<rparr>)
      | Some outputs \<Rightarrow> k ()
          (w\<lparr>s3 := s3 w ++ outputs, jobs := (jobs w)(j \<mapsto> Completed),
             trace := trace w @ Submit j (TransformRequest t data ct) (visible (reads (TransformRequest t data ct)) (s3 w))
                       # (if transform_blocks E then [Wait j, Returned j, Print s, Wait j, Returned j]
                          else [Print s, Wait j, Returned j])\<rparr>))"
  by (simp add: transform_def submit_def wait_job_def andthen_def print_def log_def return_def split: option.splits)

lemma andthen_client_create_model [simp]:
  "andthen (client_create_model name cs r) k w =
     (if name \<in> dom (models w)
      then (Inl (ModelAlreadyExists name), w\<lparr>trace := trace w @ [CreateModel name cs r]\<rparr>)
      else k () (w\<lparr>models := (models w)(name \<mapsto> (cs, r)), trace := trace w @ [CreateModel name cs r]\<rparr>))"
  by (simp add: client_create_model_def andthen_def)

lemmas cell_defs = cells_after_split_def upload_cell_def preprocess_cell_def transform_train_cell_def
  transform_validation_cell_def train_cell_def postprocess_cell_def register_cell_def


lemma split_cell_cases:
  obtains (failed) e w' where "split_cell E churn w = (Inl e, w')"
      "trace w' = trace w" "s3 w' = s3 w" "models w' = models w" "jobs w' = jobs w"
  | (written) a b c where "split_cell E churn w =
      (Inr (), w\<lparr>files := (files w)(''train.csv'' \<mapsto> a, ''validation.csv'' \<mapsto> b, ''test.csv'' \<mapsto> c)\<rparr>)"
proof (cases "train_validation_test (rng E) churn")
  case (Inl e)
  then have "split_cell E churn w = (Inl e, w)" by (simp add: split_cell_def andthen_def lift_def)
  then show ?thesis by (rule failed) simp_all
next
  case (Inr frames)
  obtain tr va te where frames: "frames = (tr, va, te)" by (cases frames) auto
  show ?thesis
  proof (cases "drop_column ''Churn?'' te")
    case (Inl e)
    with Inr frames have "split_cell E churn w =
        (Inl e, w\<lparr>files := (files w)(''train.csv'' \<mapsto> to_csv False tr, ''validation.csv'' \<mapsto> to_csv False va)\<rparr>)"
      by (simp add: split_cell_def andthen_def lift_def to_csv_file_def)
    then show ?thesis by (rule failed) simp_all
  next
    case d: (Inr dropped)
    with Inr frames have "split_cell E churn w =
        (Inr (), w\<lparr>files := (files w)(''train.csv'' \<mapsto> to_csv False tr, ''validation.csv'' \<mapsto> to_csv False va,
                                        ''test.csv'' \<mapsto> to_csv True dropped)\<rparr>)"
      by (simp add: split_cell_def andthen_def lift_def to_csv_file_def)
    then show ?thesis by (rule written)
  qed
qed

lemma run_all_cases:
  obtains (failed) e w' where "run_all E churn w = (Inl e, w')"
      "trace w' = trace w" "s3 w' = s3 w" "models w' = models w" "jobs w' = jobs w"
  | (written) a b c where "run_all E churn w =
      cells_after_split E (w\<lparr>files := (files w)(''train.csv'' \<mapsto> a, ''validation.csv'' \<mapsto> b, ''test.csv'' \<mapsto> c)\<rparr>)"
proof (cases rule: split_cell_cases[of E churn w])
  case (failed e w')
  from failed(1) have "run_all E churn w = (Inl e, w')" by (simp add: run_all_def andthen_def)
  then show ?thesis using failed(2-) by (rule that(1))
next
  case (written a b c)
  then have "run_all E churn w =
      cells_after_split E (w\<lparr>files := (files w)(''train.csv'' \<mapsto> a, ''validation.csv'' \<mapsto> b, ''test.csv'' \<mapsto> c)\<rparr>)"
    by (simp add: run_all_def andthen_def)
  then show ?thesis by (rule that(2))
qed

lemmas evaluate = cell_defs return_def Let_def fresh_def

section \<open>Every run, by the first job that fails\<close>

text \<open>
  With the three files written, the cells after the split cell end in one of six ways:
  one of the four jobs fails, the model name is taken, or the model is registered.
  In each case the result, the events, the store and the registry are as follows.
\<close>

lemmas events = upload_events_def fit_events_def transform_events_def

lemmas submitted = events uploaded_def fit_request_def inference_model_def train_transform_request_def
  validation_transform_request_def training_request_def pipeline_containers_def
  sklearn_preprocessor_def xgb_def

lemma run_scenarios [case_names fit_failed train_transform_failed validation_transform_failed
    training_failed name_taken registered]:
  fixes P :: "(error + string) \<times> world \<Rightarrow> bool"
  assumes files: "files w ''train.csv'' = Some a" "files w ''validation.csv'' = Some b"
      "files w ''test.csv'' = Some c"
    and start: "trace w = []"
    and fit_failed: "\<And>d1 w'.
      \<lbrakk>d1 = visible (reads (fit_request E)) (uploaded a b c (s3 w));
       job_result E PreprocessFit (fit_request E) d1 = None;
       trace w' = upload_events
          @ fit_events PreprocessFit (fit_request E) d1 False;
       s3 w' = uploaded a b c (s3 w);
       models w' = models w\<rbrakk>
      \<Longrightarrow> P (Inl (JobFailed PreprocessFit), w')"
    and train_transform_failed: "\<And>d1 o1 d2 w'.
      \<lbrakk>d1 = visible (reads (fit_request E)) (uploaded a b c (s3 w));
       job_result E PreprocessFit (fit_request E) d1 = Some o1;
       d2 = visible (reads (train_transform_request E)) (uploaded a b c (s3 w) ++ o1);
       job_result E TransformTrain (train_transform_request E) d2 = None;
       trace w' = upload_events
          @ fit_events PreprocessFit (fit_request E) d1 True
          @ [ReadOutput PreprocessFit]
          @ transform_events (transform_blocks E) TransformTrain (train_transform_request E) d2
             (''Waiting for transform job: '' @ job_name E TransformTrain) False;
       s3 w' = uploaded a b c (s3 w) ++ o1;
       models w' = models w\<rbrakk>
      \<Longrightarrow> P (Inl (JobFailed TransformTrain), w')"
    and validation_transform_failed: "\<And>d1 o1 d2 o2 d3 w'.
      \<lbrakk>d1 = visible (reads (fit_request E)) (uploaded a b c (s3 w));
       job_result E PreprocessFit (fit_request E) d1 = Some o1;
       d2 = visible (reads (train_transform_request E)) (uploaded a b c (s3 w) ++ o1);
       job_result E TransformTrain (train_transform_request E) d2 = Some o2;
       d3 = visible (reads (validation_transform_request E)) (uploaded a b c (s3 w) ++ o1 ++ o2);
       job_result E TransformValidation (validation_transform_request E) d3 = None;
       trace w' = upload_events
          @ fit_events PreprocessFit (fit_request E) d1 True
          @ [ReadOutput PreprocessFit]
          @ transform_events (transform_blocks E) TransformTrain (train_transform_request E) d2
             (''Waiting for transform job: '' @ job_name E TransformTrain) True
          @ [ReadOutput TransformTrain, Print (transform_train_output_path @ job_name E TransformTrain)]
          @ transform_events (transform_blocks E) TransformValidation (validation_transform_request E) d3
             (''Waiting for transform job: '' @ job_name E TransformValidation) False;
       s3 w' = uploaded a b c (s3 w) ++ o1 ++ o2;
       models w' = models w\<rbrakk>
      \<Longrightarrow> P (Inl (JobFailed TransformValidation), w')"
    and training_failed: "\<And>d1 o1 d2 o2 d3 o3 d4 w'.
      \<lbrakk>d1 = visible (reads (fit_request E)) (uploaded a b c (s3 w));
       job_result E PreprocessFit (fit_request E) d1 = Some o1;
       d2 = visible (reads (train_transform_request E)) (uploaded a b c (s3 w) ++ o1);
       job_result E TransformTrain (train_transform_request E) d2 = Some o2;
       d3 = visible (reads (validation_transform_request E)) (uploaded a b c (s3 w) ++ o1 ++ o2);
       job_result E TransformValidation (validation_transform_request E) d3 = Some o3;
       d4 = visible (reads (training_request E)) (uploaded a b c (s3 w) ++ o1 ++ o2 ++ o3);
       job_result E XGBoostFit (training_request E) d4 = None;
       trace w' = upload_events
          @ fit_events PreprocessFit (fit_request E) d1 True
          @ [ReadOutput PreprocessFit]
          @ transform_events (transform_blocks E) TransformTrain (train_transform_request E) d2
             (''Waiting for transform job: '' @ job_name E TransformTrain) True
          @ [ReadOutput TransformTrain, Print (transform_train_output_path @ job_name E TransformTrain)]
          @ transform_events (transform_blocks E) TransformValidation (validation_transform_request E) d3
             (''Waiting for transform job: '' @ job_name E TransformValidation) True
          @ [ReadOutput TransformValidation, Print (transform_validation_output_path @ job_name E TransformValidation)]
          @ [PrintConfig (TrainingInput (transform_train_output_path @ job_name E TransformTrain)
                (Some ''FullyReplicated'') (Some ''text/csv'')),
             PrintConfig (TrainingInput (transform_validation_output_path @ job_name E TransformValidation)
                (Some ''FullyReplicated'') (Some ''text/csv''))]
          @ fit_events XGBoostFit (training_request E) d4 False;
       s3 w' = uploaded a b c (s3 w) ++ o1 ++ o2 ++ o3;
       models w' = models w\<rbrakk>
      \<Longrightarrow> P (Inl (JobFailed XGBoostFit), w')"
    and name_taken: "\<And>d1 o1 d2 o2 d3 o3 d4 o4 w'.
      \<lbrakk>d1 = visible (reads (fit_request E)) (uploaded a b c (s3 w));
       job_result E PreprocessFit (fit_request E) d1 = Some o1;
       d2 = visible (reads (train_transform_request E)) (uploaded a b c (s3 w) ++ o1);
       job_result E TransformTrain (train_transform_request E) d2 = Some o2;
       d3 = visible (reads (validation_transform_request E)) (uploaded a b c (s3 w) ++ o1 ++ o2);
       job_result E TransformValidation (validation_transform_request E) d3 = Some o3;
       d4 = visible (reads (training_request E)) (uploaded a b c (s3 w) ++ o1 ++ o2 ++ o3);
       job_result E XGBoostFit (training_request E) d4 = Some o4;
       model_name (gmtime E) \<in> dom (models w);
       trace w' = upload_events
          @ fit_events PreprocessFit (fit_request E) d1 True
          @ [ReadOutput PreprocessFit]
          @ transform_events (transform_blocks E) TransformTrain (train_transform_request E) d2
             (''Waiting for transform job: '' @ job_name E TransformTrain) True
          @ [ReadOutput TransformTrain, Print (transform_train_output_path @ job_name E TransformTrain)]
          @ transform_events (transform_blocks E) TransformValidation (validation_transform_request E) d3
             (''Waiting for transform job: '' @ job_name E TransformValidation) True
          @ [ReadOutput TransformValidation, Print (transform_validation_output_path @ job_name E TransformValidation)]
          @ [PrintConfig (TrainingInput (transform_train_output_path @ job_name E TransformTrain)
                (Some ''FullyReplicated'') (Some ''text/csv'')),
             PrintConfig (TrainingInput (transform_validation_output_path @ job_name E TransformValidation)
                (Some ''FullyReplicated'') (Some ''text/csv''))]
          @ fit_events XGBoostFit (training_request E) d4 True
          @ [ReadOutput PreprocessFit, ReadOutput PreprocessFit, ReadOutput XGBoostFit,
             CreateModel (model_name (gmtime E)) (pipeline_containers E) (role E)];
       s3 w' = uploaded a b c (s3 w) ++ o1 ++ o2 ++ o3 ++ o4;
       models w' = models w\<rbrakk>
      \<Longrightarrow> P (Inl (ModelAlreadyExists (model_name (gmtime E))), w')"
    and registered: "\<And>d1 o1 d2 o2 d3 o3 d4 o4 w'.
      \<lbrakk>d1 = visible (reads (fit_request E)) (uploaded a b c (s3 w));
       job_result E PreprocessFit (fit_request E) d1 = Some o1;
       d2 = visible (reads (train_transform_request E)) (uploaded a b c (s3 w) ++ o1);
       job_result E TransformTrain (train_transform_request E) d2 = Some o2;
       d3 = visible (reads (validation_transform_request E)) (uploaded a b c (s3 w) ++ o1 ++ o2);
       job_result E TransformValidation (validation_transform_request E) d3 = Some o3;
       d4 = visible (reads (training_request E)) (uploaded a b c (s3 w) ++ o1 ++ o2 ++ o3);
       job_result E XGBoostFit (training_request E) d4 = Some o4;
       model_name (gmtime E) \<notin> dom (models w);
       trace w' = upload_events
          @ fit_events PreprocessFit (fit_request E) d1 True
          @ [ReadOutput PreprocessFit]
          @ transform_events (transform_blocks E) TransformTrain (train_transform_request E) d2
             (''Waiting for transform job: '' @ job_name E TransformTrain) True
          @ [ReadOutput TransformTrain, Print (transform_train_output_path @ job_name E TransformTrain)]
          @ transform_events (transform_blocks E) TransformValidation (validation_transform_request E) d3
             (''Waiting for transform job: '' @ job_name E TransformValidation) True
          @ [ReadOutput TransformValidation, Print (transform_validation_output_path @ job_name E TransformValidation)]
          @ [PrintConfig (TrainingInput (transform_train_output_path @ job_name E TransformTrain)
                (Some ''FullyReplicated'') (Some ''text/csv'')),
             PrintConfig (TrainingInput (transform_validation_output_path @ job_name E TransformValidation)
                (Some ''FullyReplicated'') (Some ''text/csv''))]
          @ fit_events XGBoostFit (training_request E) d4 True
          @ [ReadOutput PreprocessFit, ReadOutput PreprocessFit, ReadOutput XGBoostFit,
             CreateModel (model_name (gmtime E)) (pipeline_containers E) (role E)];
       s3 w' = uploaded a b c (s3 w) ++ o1 ++ o2 ++ o3 ++ o4;
       models w' = (models w)(model_name (gmtime E) \<mapsto> (pipeline_containers E, role E))\<rbrakk>
      \<Longrightarrow> P (Inr (model_name (gmtime E)), w')"
  shows "P (cells_after_split E w)"
proof (cases "transform_blocks E")
  case True
  with files start show ?thesis
    apply (simp add: evaluate split: option.splits)
    apply (intro conjI impI allI)
    subgoal by (rule fit_failed[OF refl]) (simp_all add: submitted)
    subgoal by (rule train_transform_failed[OF refl _ refl]) (simp_all add: submitted)
    subgoal by (rule validation_transform_failed[OF refl _ refl _ refl]) (simp_all add: submitted)
    subgoal by (rule training_failed[OF refl _ refl _ refl _ refl]) (simp_all add: submitted)
    subgoal by (rule name_taken[OF refl _ refl _ refl _ refl]) (auto simp add: submitted)
    subgoal by (rule registered[OF refl _ refl _ refl _ refl]) (auto simp add: submitted)
    done
next
  case False
  with files start show ?thesis
    apply (simp add: evaluate split: option.splits)
    apply (intro conjI impI allI)
    subgoal by (rule fit_failed[OF refl]) (simp_all add: submitted)
    subgoal by (rule train_transform_failed[OF refl _ refl]) (simp_all add: submitted)
    subgoal by (rule validation_transform_failed[OF refl _ refl _ refl]) (simp_all add: submitted)
    subgoal by (rule training_failed[OF refl _ refl _ refl _ refl]) (simp_all add: submitted)
    subgoal by (rule name_taken[OF refl _ refl _ refl _ refl]) (auto simp add: submitted)
    subgoal by (rule registered[OF refl _ refl _ refl _ refl]) (auto simp add: submitted)
    done
qed

lemma run_all_scenarios [case_names split_failed files_written]:
  fixes P :: "(error + string) \<times> world \<Rightarrow> bool"
  assumes "\<And>e w'. \<lbrakk>trace w' = trace w; s3 w' = s3 w; models w' = models w\<rbrakk> \<Longrightarrow> P (Inl e, w')"
    and "\<And>a b c. P (cells_after_split E
            (w\<lparr>files := (files w)(''train.csv'' \<mapsto> a, ''validation.csv'' \<mapsto> b, ''test.csv'' \<mapsto> c)\<rparr>))"
  shows "P (run_all E churn w)"
proof (cases rule: run_all_cases[of E churn w])
  case (failed e w')
  with assms(1) show ?thesis by simp
next
  case (written a b c)
  with assms(2) show ?thesis by simp
qed

section \<open>The order of the jobs\<close>

text \<open>
  C6. In every run of the notebook, from a world with no earlier events: the call that
  follows each job submission is a blocking wait on the submitted job; a job is
  submitted only when no other job is in flight; and the validation transform job is not
  submitted before a wait on the train transform job has returned.
\<close>

theorem jobs_strictly_sequential:
  "waits_follow (trace (snd (run_all E churn (fresh local_files store registry))))
   \<and> one_at_a_time None (trace (snd (run_all E churn (fresh local_files store registry))))
   \<and> precedes (\<lambda>e. e = Returned TransformTrain) (is_submit TransformValidation)
        (trace (snd (run_all E churn (fresh local_files store registry))))"
proof (rule run_all_scenarios[where P = "\<lambda>x. waits_follow (trace (snd x)) \<and> one_at_a_time None (trace (snd x))
     \<and> precedes (\<lambda>e. e = Returned TransformTrain) (is_submit TransformValidation) (trace (snd x))"])
  fix e w'
  assume "trace w' = trace (fresh local_files store registry)"
  then show "waits_follow (trace (snd (Inl e, w'))) \<and> one_at_a_time None (trace (snd (Inl e, w')))
     \<and> precedes (\<lambda>e. e = Returned TransformTrain) (is_submit TransformValidation) (trace (snd (Inl e, w')))"
    by (simp add: fresh_def)
next
  fix a b c
  show "waits_follow (trace (snd (cells_after_split E (fresh local_files store registry
          \<lparr>files := (files (fresh local_files store registry))
              (''train.csv'' \<mapsto> a, ''validation.csv'' \<mapsto> b, ''test.csv'' \<mapsto> c)\<rparr>))))
      \<and> one_at_a_time None (trace (snd (cells_after_split E (fresh local_files store registry
          \<lparr>files := (files (fresh local_files store registry))
              (''train.csv'' \<mapsto> a, ''validation.csv'' \<mapsto> b, ''test.csv'' \<mapsto> c)\<rparr>))))
      \<and> precedes (\<lambda>e. e = Returned TransformTrain) (is_submit TransformValidation)
          (trace (snd (cells_after_split E (fresh local_files store registry
          \<lparr>files := (files (fresh local_files store registry))
              (''train.csv'' \<mapsto> a, ''validation.csv'' \<mapsto> b, ''test.csv'' \<mapsto> c)\<rparr>))))"
    by (rule run_scenarios[where a = a and b = b and c = c and P = "\<lambda>x. waits_follow (trace (snd x))
          \<and> one_at_a_time None (trace (snd x))
          \<and> precedes (\<lambda>e. e = Returned TransformTrain) (is_submit TransformValidation) (trace (snd x))"])
       (simp_all add: fresh_def events)
qed

lemma demo_split_cell:
  "split_cell demo_platform demo_frame w =
     (Inr (), w\<lparr>files := (files w)
        (''train.csv'' \<mapsto> [[''IN'', ''True.''], [''WV'', ''False.''], [''LA'', ''True.''], [''MO'', ''False.''],
                              [''MA'', ''False.''], [''AL'', ''True.''], [''OK'', ''False.'']],
         ''validation.csv'' \<mapsto> [[''KS'', ''False.''], [''NJ'', ''True.'']],
         ''test.csv'' \<mapsto> [[''State''], [''OH'']])\<rparr>)"
proof -
  have "rng demo_platform = demo_rng" by (simp add: demo_platform_def)
  then show ?thesis
    by (simp add: split_cell_def train_validation_test_def demo_split andthen_def lift_def
        to_csv_file_def drop_column_def to_csv_def)
qed

lemma demo_timestamp: "model_name (gmtime demo_platform) = ''QS-inference-pipeline-2020-07-04-09-30-05''"
  by (simp add: demo_platform_def model_name_def strftime_def pad2_def str_nat.simps digit_char_def)

lemma demo_run:
  "fst (run_all demo_platform demo_frame (fresh Map.empty Map.empty Map.empty))
     = Inr ''QS-inference-pipeline-2020-07-04-09-30-05''
   \<and> map (\<lambda>j. length (filter (is_submit j) (trace (snd (run_all demo_platform demo_frame (fresh Map.empty Map.empty Map.empty))))))
         [PreprocessFit, TransformTrain, TransformValidation, XGBoostFit] = [1, 1, 1, 1]
   \<and> length (trace (snd (run_all demo_platform demo_frame (fresh Map.empty Map.empty Map.empty)))) = 32"
proof -
  have r: "job_result demo_platform = (\<lambda>j req inputs. Some Map.empty)"
      and b: "transform_blocks demo_platform"
    by (simp_all add: demo_platform_def)
  have eq: "run_all demo_platform demo_frame (fresh Map.empty Map.empty Map.empty) =
      cells_after_split demo_platform (snd (split_cell demo_platform demo_frame (fresh Map.empty Map.empty Map.empty)))"
    by (simp add: run_all_def andthen_def demo_split_cell)
  show ?thesis
    unfolding eq by (simp add: demo_split_cell evaluate r b demo_timestamp)
qed

theorem jobs_strictly_sequential_witness:
  "waits_follow (trace (snd (run_all demo_platform demo_frame (fresh Map.empty Map.empty Map.empty))))
   \<and> one_at_a_time None (trace (snd (run_all demo_platform demo_frame (fresh Map.empty Map.empty Map.empty))))
   \<and> precedes (\<lambda>e. e = Returned TransformTrain) (is_submit TransformValidation)
        (trace (snd (run_all demo_platform demo_frame (fresh Map.empty Map.empty Map.empty))))
   \<and> fst (run_all demo_platform demo_frame (fresh Map.empty Map.empty Map.empty))
        = Inr ''QS-inference-pipeline-2020-07-04-09-30-05''
   \<and> map (\<lambda>j. length (filter (is_submit j) (trace (snd (run_all demo_platform demo_frame (fresh Map.empty Map.empty Map.empty))))))
         [PreprocessFit, TransformTrain, TransformValidation, XGBoostFit] = [1, 1, 1, 1]"
  using jobs_strictly_sequential[of demo_platform demo_frame Map.empty Map.empty Map.empty] demo_run
  by blast

section \<open>Outputs are read after the wait\<close>

text \<open>
  C7. In every run of the notebook, for every job: the output location of the job is not
  read before a wait on the job has returned. In particular the transformed train and
  validation paths are built after the waits on their jobs, the jobs that consume an
  output (the two transforms the fitted preprocessor, the training job the two
  transformed paths, the registration both artifacts) are not started before the wait
  on the producing job has returned.
\<close>

theorem outputs_read_after_wait:
  "precedes (\<lambda>e. e = Returned j) (\<lambda>e. e = ReadOutput j)
        (trace (snd (run_all E churn (fresh local_files store registry))))
   \<and> precedes (\<lambda>e. e = Returned PreprocessFit) (is_submit TransformTrain)
        (trace (snd (run_all E churn (fresh local_files store registry))))
   \<and> precedes (\<lambda>e. e = Returned PreprocessFit) (is_submit TransformValidation)
        (trace (snd (run_all E churn (fresh local_files store registry))))
   \<and> precedes (\<lambda>e. e = Returned TransformTrain) (is_submit XGBoostFit)
        (trace (snd (run_all E churn (fresh local_files store registry))))
   \<and> precedes (\<lambda>e. e = Returned TransformValidation) (is_submit XGBoostFit)
        (trace (snd (run_all E churn (fresh local_files store registry))))
   \<and> precedes (\<lambda>e. e = Returned PreprocessFit) is_create_model
        (trace (snd (run_all E churn (fresh local_files store registry))))
   \<and> precedes (\<lambda>e. e = Returned XGBoostFit) is_create_model
        (trace (snd (run_all E churn (fresh local_files store registry))))"
proof (rule run_all_scenarios[where P = "\<lambda>x. precedes (\<lambda>e. e = Returned j) (\<lambda>e. e = ReadOutput j) (trace (snd x))
   \<and> precedes (\<lambda>e. e = Returned PreprocessFit) (is_submit TransformTrain) (trace (snd x))
   \<and> precedes (\<lambda>e. e = Returned PreprocessFit) (is_submit TransformValidation) (trace (snd x))
   \<and> precedes (\<lambda>e. e = Returned TransformTrain) (is_submit XGBoostFit) (trace (snd x))
   \<and> precedes (\<lambda>e. e = Returned TransformValidation) (is_submit XGBoostFit) (trace (snd x))
   \<and> precedes (\<lambda>e. e = Returned PreprocessFit) is_create_model (trace (snd x))
   \<and> precedes (\<lambda>e. e = Returned XGBoostFit) is_create_model (trace (snd x))"], goal_cases)
  case (1 e w')
  then show ?case by (simp add: fresh_def)
next
  case (2 a b c)
  show ?case
    by (rule run_scenarios[where a = a and b = b and c = c and P = "\<lambda>x. precedes (\<lambda>e. e = Returned j) (\<lambda>e. e = ReadOutput j) (trace (snd x))
   \<and> precedes (\<lambda>e. e = Returned PreprocessFit) (is_submit TransformTrain) (trace (snd x))
   \<and> precedes (\<lambda>e. e = Returned PreprocessFit) (is_submit TransformValidation) (trace (snd x))
   \<and> precedes (\<lambda>e. e = Returned TransformTrain) (is_submit XGBoostFit) (trace (snd x))
   \<and> precedes (\<lambda>e. e = Returned TransformValidation) (is_submit XGBoostFit) (trace (snd x))
   \<and> precedes (\<lambda>e. e = Returned PreprocessFit) is_create_model (trace (snd x))
   \<and> precedes (\<lambda>e. e = Returned XGBoostFit) is_create_model (trace (snd x))"]; cases j)
       (simp_all add: fresh_def events)
qed

lemma demo_run_reads:
  "ReadOutput TransformTrain
     \<in> set (trace (snd (run_all demo_platform demo_frame (fresh Map.empty Map.empty Map.empty))))"
proof -
  have r: "job_result demo_platform = (\<lambda>j req inputs. Some Map.empty)"
      and b: "transform_blocks demo_platform"
    by (simp_all add: demo_platform_def)
  have eq: "run_all demo_platform demo_frame (fresh Map.empty Map.empty Map.empty) =
      cells_after_split demo_platform (snd (split_cell demo_platform demo_frame (fresh Map.empty Map.empty Map.empty)))"
    by (simp add: run_all_def andthen_def demo_split_cell)
  show ?thesis
    unfolding eq by (simp add: demo_split_cell evaluate r b)
qed

theorem outputs_read_after_wait_witness:
  "ReadOutput TransformTrain
     \<in> set (trace (snd (run_all demo_platform demo_frame (fresh Map.empty Map.empty Map.empty))))
   \<and> precedes (\<lambda>e. e = Returned TransformTrain) (\<lambda>e. e = ReadOutput TransformTrain)
        (trace (snd (run_all demo_platform demo_frame (fresh Map.empty Map.empty Map.empty))))
   \<and> precedes (\<lambda>e. e = Returned TransformTrain) (is_submit XGBoostFit)
        (trace (snd (run_all demo_platform demo_frame (fresh Map.empty Map.empty Map.empty))))
   \<and> precedes (\<lambda>e. e = Returned TransformValidation) (is_submit XGBoostFit)
        (trace (snd (run_all demo_platform demo_frame (fresh Map.empty Map.empty Map.empty))))"
  using outputs_read_after_wait[of TransformTrain demo_platform demo_frame Map.empty Map.empty Map.empty]
    demo_run_reads
  by blast

section \<open>A failed job ends the run\<close>






section \<open>Time stamps are injective\<close>











section \<open>The registration cell\<close>








section \<open>The first and the third container\<close>

text \<open>
  C9. In every run of the notebook that registers the model: the entry lists three
  containers; the first and the third have the same image and the same model artifact
  location, and the same environment variables with the same values except for
  \<open>TRANSFORM_MODE\<close>, which is \<open>feature-transform\<close> in the first and
  \<open>inverse-label-transform\<close> in the third.
\<close>

theorem pre_and_post_containers:
  assumes "fst (run_all E churn (fresh local_files store registry)) = Inr name"
  shows "\<exists>pre predict post execution_role.
       models (snd (run_all E churn (fresh local_files store registry))) name
         = Some ([pre, predict, post], execution_role)
     \<and> Image pre = Image post
     \<and> ModelDataUrl pre = ModelDataUrl post
     \<and> map fst (Environment pre) = map fst (Environment post)
     \<and> map_of (Environment pre) ''TRANSFORM_MODE'' = Some ''feature-transform''
     \<and> map_of (Environment post) ''TRANSFORM_MODE'' = Some ''inverse-label-transform''
     \<and> (\<forall>k. k \<noteq> ''TRANSFORM_MODE'' \<longrightarrow> map_of (Environment pre) k = map_of (Environment post) k)"
proof -
  define P :: "(error + string) \<times> world \<Rightarrow> bool" where
    "P = (\<lambda>x. fst x = Inr name \<longrightarrow>
      (\<exists>pre predict post execution_role.
       models (snd x) name = Some ([pre, predict, post], execution_role)
     \<and> Image pre = Image post
     \<and> ModelDataUrl pre = ModelDataUrl post
     \<and> map fst (Environment pre) = map fst (Environment post)
     \<and> map_of (Environment pre) ''TRANSFORM_MODE'' = Some ''feature-transform''
     \<and> map_of (Environment post) ''TRANSFORM_MODE'' = Some ''inverse-label-transform''
     \<and> (\<forall>k. k \<noteq> ''TRANSFORM_MODE'' \<longrightarrow> map_of (Environment pre) k = map_of (Environment post) k)))"
  have "P (run_all E churn (fresh local_files store registry))"
  proof (rule run_all_scenarios, goal_cases)
    case (1 e w')
    then show ?case by (simp add: P_def)
  next
    case (2 a b c)
    show ?case
      by (rule run_scenarios[where a = a and b = b and c = c])
         (simp_all add: P_def fresh_def pipeline_containers_def sklearn_environment_def)
  qed
  with assms show ?thesis by (simp add: P_def)
qed

theorem pre_and_post_containers_witness:
  "fst (run_all demo_platform demo_frame (fresh Map.empty Map.empty Map.empty))
     = Inr ''QS-inference-pipeline-2020-07-04-09-30-05''
   \<and> (\<exists>pre predict post execution_role.
       models (snd (run_all demo_platform demo_frame (fresh Map.empty Map.empty Map.empty)))
         ''QS-inference-pipeline-2020-07-04-09-30-05''
         = Some ([pre, predict, post], execution_role)
     \<and> Image pre = Image post
     \<and> ModelDataUrl pre = ModelDataUrl post
     \<and> map fst (Environment pre) = map fst (Environment post)
     \<and> map_of (Environment pre) ''TRANSFORM_MODE'' = Some ''feature-transform''
     \<and> map_of (Environment post) ''TRANSFORM_MODE'' = Some ''inverse-label-transform''
     \<and> (\<forall>k. k \<noteq> ''TRANSFORM_MODE'' \<longrightarrow> map_of (Environment pre) k = map_of (Environment post) k))"
proof -
  from demo_run have h: "fst (run_all demo_platform demo_frame (fresh Map.empty Map.empty Map.empty))
     = Inr ''QS-inference-pipeline-2020-07-04-09-30-05''"
    by (rule conjunct1)
  show ?thesis
    by (intro conjI) (fact h pre_and_post_containers[OF h])+
qed

section \<open>The test partition is not read\<close>

lemma visible_update_other:
  "\<not> list_ex (\<lambda>p. prefix p k) ps \<Longrightarrow> visible ps (store(k \<mapsto> v)) = visible ps store"
  by (auto simp: visible_def fun_eq_iff)

lemma visible_map_add: "visible ps (store ++ outputs) = visible ps store ++ visible ps outputs"
  by (auto simp: visible_def fun_eq_iff map_add_def)

lemma S3Uri_TrainingInput: "S3Uri (TrainingInput p d c) = p"
  by (simp add: TrainingInput_def)

lemma test_not_under_train:
  "\<not> prefix (S3Uri s3_input_train) (s3_uri bucket (path_join prefix_str ''rawtest/test.csv''))"
  by (simp add: s3_input_train_def TrainingInput_def s3_uri_def path_join_def bucket_def prefix_str_def)

lemma test_not_under_validation:
  "\<not> prefix (S3Uri s3_input_validation) (s3_uri bucket (path_join prefix_str ''rawtest/test.csv''))"
  by (simp add: s3_input_validation_def TrainingInput_def s3_uri_def path_join_def bucket_def prefix_str_def)

lemma test_not_under_transformed_train:
  "\<not> prefix (transform_train_output_path @ x) (s3_uri bucket (path_join prefix_str ''rawtest/test.csv''))"
proof
  assume "prefix (transform_train_output_path @ x) (s3_uri bucket (path_join prefix_str ''rawtest/test.csv''))"
  then have "prefix transform_train_output_path (s3_uri bucket (path_join prefix_str ''rawtest/test.csv''))"
    by (rule append_prefixD)
  then show False
    by (simp add: transform_train_output_path_def s3_uri_def path_join_def bucket_def prefix_str_def)
qed

lemma test_not_under_transformed_validation:
  "\<not> prefix (transform_validation_output_path @ x) (s3_uri bucket (path_join prefix_str ''rawtest/test.csv''))"
proof
  assume "prefix (transform_validation_output_path @ x) (s3_uri bucket (path_join prefix_str ''rawtest/test.csv''))"
  then have "prefix transform_validation_output_path (s3_uri bucket (path_join prefix_str ''rawtest/test.csv''))"
    by (rule append_prefixD)
  then show False
    by (simp add: transform_validation_output_path_def s3_uri_def path_join_def bucket_def prefix_str_def)
qed

lemmas test_not_read = visible_update_other visible_map_add S3Uri_TrainingInput test_not_under_train
  test_not_under_validation test_not_under_transformed_train test_not_under_transformed_validation

lemma test_file_irrelevant:
  assumes art: "\<not> prefix (artifact E PreprocessFit) (s3_uri bucket (path_join prefix_str ''rawtest/test.csv''))"
    and start: "trace w = []"
  shows "(\<lambda>x. (fst x, trace (snd x), models (snd x)))
           (cells_after_split E (w\<lparr>files := (files w)(''train.csv'' \<mapsto> a, ''validation.csv'' \<mapsto> b, ''test.csv'' \<mapsto> c1)\<rparr>))
       = (\<lambda>x. (fst x, trace (snd x), models (snd x)))
           (cells_after_split E (w\<lparr>files := (files w)(''train.csv'' \<mapsto> a, ''validation.csv'' \<mapsto> b, ''test.csv'' \<mapsto> c2)\<rparr>))"
proof (cases "transform_blocks E")
  case True
  show ?thesis
    by (rule run_scenarios[where a = a and b = b and c = c1 and P = "\<lambda>y. (\<lambda>x. (fst x, trace (snd x), models (snd x))) y
       = (\<lambda>x. (fst x, trace (snd x), models (snd x)))
           (cells_after_split E (w\<lparr>files := (files w)(''train.csv'' \<mapsto> a, ''validation.csv'' \<mapsto> b, ''test.csv'' \<mapsto> c2)\<rparr>))"])
       (insert art start True, simp_all add: evaluate submitted test_not_read)
next
  case False
  show ?thesis
    by (rule run_scenarios[where a = a and b = b and c = c1 and P = "\<lambda>y. (\<lambda>x. (fst x, trace (snd x), models (snd x))) y
       = (\<lambda>x. (fst x, trace (snd x), models (snd x)))
           (cells_after_split E (w\<lparr>files := (files w)(''train.csv'' \<mapsto> a, ''validation.csv'' \<mapsto> b, ''test.csv'' \<mapsto> c2)\<rparr>))"])
       (insert art start False, simp_all add: evaluate submitted test_not_read)
qed

lemma test_under_test_input:
  "prefix (S3Uri s3_input_test) (s3_uri bucket (path_join prefix_str ''rawtest/test.csv''))"
  by (simp add: s3_input_test_def TrainingInput_def s3_uri_def path_join_def bucket_def prefix_str_def)

lemma not_test_input:
  "\<not> prefix p (s3_uri bucket (path_join prefix_str ''rawtest/test.csv'')) \<Longrightarrow> S3Uri s3_input_test \<noteq> p"
  using test_under_test_input by auto

lemma visible_none:
  "\<not> list_ex (\<lambda>p. prefix p k) ps \<Longrightarrow> visible ps store k = None"
  by (simp add: visible_def)

lemma submissions_avoid_test:
  assumes art: "\<not> prefix (artifact E PreprocessFit) (s3_uri bucket (path_join prefix_str ''rawtest/test.csv''))"
    and files: "files w ''train.csv'' = Some a" "files w ''validation.csv'' = Some b" "files w ''test.csv'' = Some c"
    and start: "trace w = []"
    and sub: "Submit j req inputs \<in> set (trace (snd (cells_after_split E w)))"
  shows "S3Uri s3_input_test \<notin> set (reads req)
       \<and> inputs (s3_uri bucket (path_join prefix_str ''rawtest/test.csv'')) = None"
proof -
  note avoid = not_test_input[OF art] not_test_input[OF test_not_under_train]
    not_test_input[OF test_not_under_validation] not_test_input[OF test_not_under_transformed_train]
    not_test_input[OF test_not_under_transformed_validation]
  define P :: "(error + string) \<times> world \<Rightarrow> bool" where
    "P = (\<lambda>x. Submit j req inputs \<in> set (trace (snd x)) \<longrightarrow>
          S3Uri s3_input_test \<notin> set (reads req)
        \<and> inputs (s3_uri bucket (path_join prefix_str ''rawtest/test.csv'')) = None)"
  have "P (cells_after_split E w)"
    by (rule run_scenarios[OF files start])
       (insert art, auto simp add: P_def events fit_request_def train_transform_request_def
          validation_transform_request_def training_request_def inference_model_def
          S3Uri_TrainingInput visible_none test_not_under_train test_not_under_validation
          test_not_under_transformed_train test_not_under_transformed_validation avoid)
  with sub show ?thesis by (simp add: P_def)
qed

lemma split_cell_given:
  assumes "train_validation_test (rng E) churn = Inr (tr, va, te)"
  shows "split_cell E churn w =
     (case drop_column ''Churn?'' te of
        Inl e \<Rightarrow> (Inl e, w\<lparr>files := (files w)(''train.csv'' \<mapsto> to_csv False tr,
                                                ''validation.csv'' \<mapsto> to_csv False va)\<rparr>)
      | Inr dropped \<Rightarrow> (Inr (), w\<lparr>files := (files w)(''train.csv'' \<mapsto> to_csv False tr,
                                                ''validation.csv'' \<mapsto> to_csv False va,
                                                ''test.csv'' \<mapsto> to_csv True dropped)\<rparr>))"
  using assms by (simp add: split_cell_def andthen_def lift_def to_csv_file_def split: sum.splits)

text \<open>
  C10. The test input is built (\<open>s3_input_test\<close>) and never passed to a job: in every
  run, no submitted request names its location, and the uploaded test file is not among
  the inputs of any job. So two runs on the same platform and the same initial world,
  on frames whose train and validation partitions are the same and whose test
  partitions have the same columns, end with the same result, the same events (with
  every request and the inputs of every job) and the same registry. The artifact of the
  preprocessing fit is taken not to be stored at a location above the test file.
\<close>

theorem test_partition_never_read:
  assumes "train_validation_test (rng E) churn1 = Inr (train_data, validation_data, test1)"
    and "train_validation_test (rng E) churn2 = Inr (train_data, validation_data, test2)"
    and "columns test1 = columns test2"
    and "\<not> prefix (artifact E PreprocessFit) (s3_uri bucket (path_join prefix_str ''rawtest/test.csv''))"
  shows "fst (run_all E churn1 (fresh local_files store registry))
           = fst (run_all E churn2 (fresh local_files store registry))
       \<and> trace (snd (run_all E churn1 (fresh local_files store registry)))
           = trace (snd (run_all E churn2 (fresh local_files store registry)))
       \<and> models (snd (run_all E churn1 (fresh local_files store registry)))
           = models (snd (run_all E churn2 (fresh local_files store registry)))
       \<and> (\<forall>j req inputs.
             Submit j req inputs \<in> set (trace (snd (run_all E churn1 (fresh local_files store registry))))
             \<longrightarrow> S3Uri s3_input_test \<notin> set (reads req)
               \<and> inputs (s3_uri bucket (path_join prefix_str ''rawtest/test.csv'')) = None)"
proof (cases "''Churn?'' \<in> set (columns test1)")
  case False
  with assms(3) have "drop_column ''Churn?'' test1 = Inl (KeyError ''Churn?'')"
    "drop_column ''Churn?'' test2 = Inl (KeyError ''Churn?'')"
    by (simp_all add: drop_column_def)
  then show ?thesis
    by (simp add: run_all_def andthen_def split_cell_given[OF assms(1)] split_cell_given[OF assms(2)] fresh_def)
next
  case True
  with assms(3) obtain d1 d2 where d: "drop_column ''Churn?'' test1 = Inr d1" "drop_column ''Churn?'' test2 = Inr d2"
    by (simp add: drop_column_def)
  define w where "w = fresh local_files store registry"
  have r1: "run_all E churn1 w = cells_after_split E
      (w\<lparr>files := (files w)(''train.csv'' \<mapsto> to_csv False train_data,
           ''validation.csv'' \<mapsto> to_csv False validation_data, ''test.csv'' \<mapsto> to_csv True d1)\<rparr>)"
    and r2: "run_all E churn2 w = cells_after_split E
      (w\<lparr>files := (files w)(''train.csv'' \<mapsto> to_csv False train_data,
           ''validation.csv'' \<mapsto> to_csv False validation_data, ''test.csv'' \<mapsto> to_csv True d2)\<rparr>)"
    by (simp_all add: run_all_def andthen_def split_cell_given[OF assms(1)] split_cell_given[OF assms(2)] d)
  have start: "trace w = []" by (simp add: w_def fresh_def)
  from test_file_irrelevant[OF assms(4) start, of "to_csv False train_data" "to_csv False validation_data"
      "to_csv True d1" "to_csv True d2"]
  have same: "fst (run_all E churn1 w) = fst (run_all E churn2 w)"
    "trace (snd (run_all E churn1 w)) = trace (snd (run_all E churn2 w))"
    "models (snd (run_all E churn1 w)) = models (snd (run_all E churn2 w))"
    by (simp_all add: r1 r2)
  have avoid: "S3Uri s3_input_test \<notin> set (reads req)
       \<and> inputs (s3_uri bucket (path_join prefix_str ''rawtest/test.csv'')) = None"
    if "Submit j req inputs \<in> set (trace (snd (run_all E churn1 w)))" for j req inputs
  proof -
    from that have "Submit j req inputs \<in> set (trace (snd (cells_after_split E
      (w\<lparr>files := (files w)(''train.csv'' \<mapsto> to_csv False train_data,
           ''validation.csv'' \<mapsto> to_csv False validation_data, ''test.csv'' \<mapsto> to_csv True d1)\<rparr>))))"
      by (simp add: r1)
    then show ?thesis
      by (rule submissions_avoid_test[OF assms(4), rotated -1]) (simp_all add: start)
  qed
  from same avoid show ?thesis unfolding w_def by blast
qed

lemma len_other: "len other_frame = 10" by (simp add: len_def other_frame_def demo_frame_def)

lemma other_split: "splitter demo_rng 1729 float_0_7 float_0_9 other_frame =
   Inr (\<lparr>columns = [''State'', ''Churn?''],
     rows = [(9, [''IN'', ''True.'']), (8, [''WV'', ''False.'']), (7, [''LA'', ''True.'']), (6, [''MO'', ''False.'']),
             (5, [''MA'', ''False.'']), (4, [''AL'', ''True.'']), (3, [''OK'', ''False.''])]\<rparr>,
        \<lparr>columns = [''State'', ''Churn?''], rows = [(2, [''KS'', ''False.'']), (1, [''NJ'', ''True.''])]\<rparr>,
        \<lparr>columns = [''State'', ''Churn?''], rows = [(0, [''TX'', ''True.''])]\<rparr>)"
  by (simp add: splitter_def sample_def take_rows_def len_other len_update demo_rng_def np_split_def slice_def sp7 sp9 upt_conv_Cons)
     (simp add: other_frame_def demo_frame_def)

theorem test_partition_never_read_witness:
  "train_validation_test (rng demo_platform) demo_frame =
     Inr (\<lparr>columns = [''State'', ''Churn?''],
           rows = [(9, [''IN'', ''True.'']), (8, [''WV'', ''False.'']), (7, [''LA'', ''True.'']), (6, [''MO'', ''False.'']),
                   (5, [''MA'', ''False.'']), (4, [''AL'', ''True.'']), (3, [''OK'', ''False.''])]\<rparr>,
          \<lparr>columns = [''State'', ''Churn?''], rows = [(2, [''KS'', ''False.'']), (1, [''NJ'', ''True.''])]\<rparr>,
          \<lparr>columns = [''State'', ''Churn?''], rows = [(0, [''OH'', ''False.''])]\<rparr>)
   \<and> train_validation_test (rng demo_platform) other_frame =
     Inr (\<lparr>columns = [''State'', ''Churn?''],
           rows = [(9, [''IN'', ''True.'']), (8, [''WV'', ''False.'']), (7, [''LA'', ''True.'']), (6, [''MO'', ''False.'']),
                   (5, [''MA'', ''False.'']), (4, [''AL'', ''True.'']), (3, [''OK'', ''False.''])]\<rparr>,
          \<lparr>columns = [''State'', ''Churn?''], rows = [(2, [''KS'', ''False.'']), (1, [''NJ'', ''True.''])]\<rparr>,
          \<lparr>columns = [''State'', ''Churn?''], rows = [(0, [''TX'', ''True.''])]\<rparr>)
   \<and> \<not> prefix (artifact demo_platform PreprocessFit) (s3_uri bucket (path_join prefix_str ''rawtest/test.csv''))
   \<and> fst (run_all demo_platform demo_frame (fresh Map.empty Map.empty Map.empty))
       = fst (run_all demo_platform other_frame (fresh Map.empty Map.empty Map.empty))
   \<and> trace (snd (run_all demo_platform demo_frame (fresh Map.empty Map.empty Map.empty)))
       = trace (snd (run_all demo_platform other_frame (fresh Map.empty Map.empty Map.empty)))
   \<and> models (snd (run_all demo_platform demo_frame (fresh Map.empty Map.empty Map.empty)))
       = models (snd (run_all demo_platform other_frame (fresh Map.empty Map.empty Map.empty)))
   \<and> length (trace (snd (run_all demo_platform demo_frame (fresh Map.empty Map.empty Map.empty)))) = 32"
proof -
  have g: "rng demo_platform = demo_rng" by (simp add: demo_platform_def)
  note h1 = demo_split[folded train_validation_test_def, folded g]
    and h2 = other_split[folded train_validation_test_def, folded g]
  have h3: "columns \<lparr>columns = [''State'', ''Churn?''], rows = [(0::nat, [''OH'', ''False.''])]\<rparr>
     = columns \<lparr>columns = [''State'', ''Churn?''], rows = [(0::nat, [''TX'', ''True.''])]\<rparr>"
    by simp
  have h4: "\<not> prefix (artifact demo_platform PreprocessFit) (s3_uri bucket (path_join prefix_str ''rawtest/test.csv''))"
    by (simp add: demo_platform_def s3_uri_def bucket_def)
  from test_partition_never_read[OF h1 h2 h3 h4, of Map.empty Map.empty Map.empty] h1 h2 h4 demo_run
  show ?thesis by simp
qed

end
